theory Spec2Isabelle
  imports Main
begin

section \<open>Python strings\<close>

text \<open>
  A string is the list of its characters, and a character is one of the code points 0
  to 255. On these the string methods are Python's: \<open>str.lower\<close> maps the letters
  \<open>A\<close> to \<open>Z\<close> and the letters at 0xC0 to 0xDE (the multiplication sign 0xD7 is no
  letter) to the character 32 places further and leaves every other character as it is;
  \<open>str.strip\<close> removes from both ends the characters for which \<open>str.isspace\<close> holds: tab,
  line feed, vertical tab, form feed, carriage return, the four separators 0x1C to 0x1F,
  the space, the next-line character 0x85 and the no-break space 0xA0.
\<close>

definition uppercase_letters :: string where
  "uppercase_letters = ''ABCDEFGHIJKLMNOPQRSTUVWXYZ'' @
     [CHR 0xC0, CHR 0xC1, CHR 0xC2, CHR 0xC3, CHR 0xC4, CHR 0xC5, CHR 0xC6, CHR 0xC7,
      CHR 0xC8, CHR 0xC9, CHR 0xCA, CHR 0xCB, CHR 0xCC, CHR 0xCD, CHR 0xCE, CHR 0xCF,
      CHR 0xD0, CHR 0xD1, CHR 0xD2, CHR 0xD3, CHR 0xD4, CHR 0xD5, CHR 0xD6,
      CHR 0xD8, CHR 0xD9, CHR 0xDA, CHR 0xDB, CHR 0xDC, CHR 0xDD, CHR 0xDE]"

definition lowercase_letters :: string where
  "lowercase_letters = ''abcdefghijklmnopqrstuvwxyz'' @
     [CHR 0xE0, CHR 0xE1, CHR 0xE2, CHR 0xE3, CHR 0xE4, CHR 0xE5, CHR 0xE6, CHR 0xE7,
      CHR 0xE8, CHR 0xE9, CHR 0xEA, CHR 0xEB, CHR 0xEC, CHR 0xED, CHR 0xEE, CHR 0xEF,
      CHR 0xF0, CHR 0xF1, CHR 0xF2, CHR 0xF3, CHR 0xF4, CHR 0xF5, CHR 0xF6,
      CHR 0xF8, CHR 0xF9, CHR 0xFA, CHR 0xFB, CHR 0xFC, CHR 0xFD, CHR 0xFE]"

definition lower_char :: "char \<Rightarrow> char" where
  "lower_char c = (case map_of (zip uppercase_letters lowercase_letters) c of
                     Some d \<Rightarrow> d | None \<Rightarrow> c)"

definition lower :: "string \<Rightarrow> string" where
  "lower s = map lower_char s"

text \<open>
  \<open>str.capitalize\<close>: the first character in upper case, the rest in lower case. The views
  call it on the two values of the \<open>source\<close> property only; the three characters 0xB5,
  0xDF and 0xFF, whose upper case lies beyond code point 255, are left as they are.
\<close>

definition upper_char :: "char \<Rightarrow> char" where
  "upper_char c = (case map_of (zip lowercase_letters uppercase_letters) c of
                     Some d \<Rightarrow> d | None \<Rightarrow> c)"

fun capitalize :: "string \<Rightarrow> string" where
  "capitalize [] = []"
| "capitalize (c # cs) = upper_char c # lower cs"

definition is_space :: "char \<Rightarrow> bool" where
  "is_space c = (c \<in> set [CHR 0x09, CHR 0x0A, CHR 0x0B, CHR 0x0C, CHR 0x0D,
                           CHR 0x1C, CHR 0x1D, CHR 0x1E, CHR 0x1F, CHR '' '',
                           CHR 0x85, CHR 0xA0])"

definition strip :: "string \<Rightarrow> string" where
  "strip s = rev (dropWhile is_space (rev (dropWhile is_space s)))"

definition endswith :: "string \<Rightarrow> string \<Rightarrow> bool" where
  "endswith s suffix =
     (length suffix \<le> length s \<and> drop (length s - length suffix) s = suffix)"

text \<open>\<open>str(n)\<close> for a non-negative integer: its decimal digits.\<close>

fun str_nat :: "nat \<Rightarrow> string" where
  "str_nat n = (if n < 10 then [''0123456789'' ! n]
                else str_nat (n div 10) @ [''0123456789'' ! (n mod 10)])"

declare str_nat.simps [simp del]

section \<open>Exceptions\<close>

datatype exn =
    KeyError string
  | MultipleObjectsReturned
  | AttributeError
  | IntegrityError

section \<open>The criminals app: data model\<close>

text \<open>
  \<open>criminals/models.py\<close>. Every table is the list of its rows in insertion order.
  \<open>FederalOffense\<close> and \<open>VACodeOffense\<close> have the same columns and live in two tables;
  a \<open>CriminalOffenseLink\<close> row holds the primary key of its criminal and two nullable
  foreign keys, one per offense table. Dates are day numbers (\<open>date.toordinal\<close>).
\<close>

record criminal =
  criminal_pk :: nat
  first_name :: string
  last_name :: string
  date_of_birth :: "int option"

record offense =
  pk :: nat
  offense_type :: string
  offense_class :: string
  description :: string

record link_row =
  link_pk :: nat
  criminal_id :: nat
  federal_offense_id :: "nat option"
  vacode_offense_id :: "nat option"
  date_charged :: "int option"
  convicted :: bool

record db =
  criminals :: "criminal list"
  federal_offenses :: "offense list"
  vacode_offenses :: "offense list"
  links :: "link_row list"

text \<open>
  An offense object as the views see it: a row together with the model class it was
  loaded from, since the \<open>source\<close> property is defined per class.
\<close>

datatype any_offense = FederalOffense offense | VACodeOffense offense

fun source :: "any_offense \<Rightarrow> string" where
  "source (FederalOffense _) = ''federal''"
| "source (VACodeOffense _) = ''virginia''"

fun row_of :: "any_offense \<Rightarrow> offense" where
  "row_of (FederalOffense x) = x"
| "row_of (VACodeOffense x) = x"

text \<open>Attribute access through a foreign key: the row with that primary key.\<close>

definition federal_offense :: "db \<Rightarrow> link_row \<Rightarrow> offense option" where
  "federal_offense d l =
     (case federal_offense_id l of None \<Rightarrow> None
      | Some i \<Rightarrow> find (\<lambda>x. pk x = i) (federal_offenses d))"

definition vacode_offense :: "db \<Rightarrow> link_row \<Rightarrow> offense option" where
  "vacode_offense d l =
     (case vacode_offense_id l of None \<Rightarrow> None
      | Some i \<Rightarrow> find (\<lambda>x. pk x = i) (vacode_offenses d))"

text \<open>
  The reverse side of the foreign key \<open>criminal\<close> of \<open>CriminalOffenseLink\<close>. The field is
  declared as \<open>models.ForeignKey(Criminal, on_delete=models.CASCADE)\<close>, with no
  \<open>related_name\<close>, so Django names the accessor on \<open>Criminal\<close> after the lower-cased name
  of the linking class followed by \<open>_set\<close>. Reading the manager under that name gives the
  link rows of the criminal, in table order; a \<open>Criminal\<close> has no manager under any other
  name, and the attribute access raises \<open>AttributeError\<close>.
\<close>

definition criminal_related_name :: "string option" where
  "criminal_related_name = None"

definition reverse_accessor :: string where
  "reverse_accessor =
     (case criminal_related_name of
        Some name \<Rightarrow> name
      | None \<Rightarrow> lower ''CriminalOffenseLink'' @ ''_set'')"

definition related_links :: "db \<Rightarrow> criminal \<Rightarrow> string \<Rightarrow> exn + link_row list" where
  "related_links d c name =
     (if name = reverse_accessor
      then Inr (filter (\<lambda>l. criminal_id l = criminal_pk c) (links d))
      else Inl AttributeError)"

text \<open>\<open>criminal.offense_links.all()\<close>.\<close>

definition offense_links :: "db \<Rightarrow> criminal \<Rightarrow> exn + link_row list" where
  "offense_links d c = related_links d c ''offense_links''"

text \<open>
  \<open>Criminal.objects.prefetch_related(Prefetch(lookup, ...))\<close>, evaluated when the view
  iterates over it: with no criminal stored there is nothing to prefetch; otherwise the
  lookup has to name a relation of \<open>Criminal\<close>, and \<open>AttributeError\<close> is raised when it
  does not.
\<close>

definition prefetch_related :: "db \<Rightarrow> string \<Rightarrow> exn + criminal list" where
  "prefetch_related d lookup =
     (if criminals d = [] then Inr []
      else if lookup = reverse_accessor then Inr (criminals d)
      else Inl AttributeError)"

definition get_criminals_with_offenses :: "db \<Rightarrow> exn + criminal list" where
  "get_criminals_with_offenses d = prefetch_related d ''offense_links''"

section \<open>Offense prioritisation\<close>

text \<open>\<open>OFFENSE_PRIORITY.get(offense_type, 0)\<close>.\<close>

definition OFFENSE_PRIORITY :: "string \<Rightarrow> nat" where
  "OFFENSE_PRIORITY t =
     (case map_of [(''Felony'', 3), (''Misdemeanor'', 2), (''Infraction'', 1)] t of
        Some n \<Rightarrow> n | None \<Rightarrow> 0)"

text \<open>\<open>link.federal_offense or link.vacode_offense\<close>; a model instance is truthy.\<close>

definition link_offense :: "db \<Rightarrow> link_row \<Rightarrow> any_offense option" where
  "link_offense d l =
     (case federal_offense d l of
        Some f \<Rightarrow> Some (FederalOffense f)
      | None \<Rightarrow> map_option VACodeOffense (vacode_offense d l))"

text \<open>The body of the \<open>for link in links\<close> loop of \<open>get_highest_offense\<close>.\<close>

fun highest_loop ::
  "db \<Rightarrow> link_row list \<Rightarrow> nat \<times> string option \<times> any_offense option
     \<Rightarrow> nat \<times> string option \<times> any_offense option" where
  "highest_loop d [] acc = acc"
| "highest_loop d (l # ls) (max_score, max_source, max_offense) =
     (case link_offense d l of
        None \<Rightarrow> highest_loop d ls (max_score, max_source, max_offense)
      | Some x \<Rightarrow>
          (let score = OFFENSE_PRIORITY (offense_type (row_of x)) in
           if score > max_score
           then highest_loop d ls (score, Some (source x), Some x)
           else highest_loop d ls (max_score, max_source, max_offense)))"

definition get_highest_offense ::
  "db \<Rightarrow> criminal \<Rightarrow> exn + nat \<times> string option \<times> any_offense option" where
  "get_highest_offense d c =
     (case offense_links d c of
        Inl e \<Rightarrow> Inl e
      | Inr links' \<Rightarrow> Inr (highest_loop d links' (0, None, None)))"

section \<open>The six-bucket view\<close>

text \<open>
  \<open>view_all_criminals\<close> up to the end of its grouping loop: the \<open>categorized\<close> dictionary,
  an association list in the dictionary's insertion order. \<open>categorized[key].append\<close>
  raises \<open>KeyError\<close> for a key that the dictionary does not hold. Each criminal is
  stored together with the \<open>highest_offense\<close> attribute the loop sets on it.
\<close>

type_synonym categorized = "(string \<times> (criminal \<times> any_offense) list) list"

definition categorized_init :: categorized where
  "categorized_init =
     [(''Federal Felons'', []), (''Federal Misdemeanors'', []),
      (''Federal Infractions'', []), (''Virginia Felons'', []),
      (''Virginia Misdemeanors'', []), (''Virginia Infractions'', [])]"

definition append_to :: "string \<Rightarrow> criminal \<times> any_offense \<Rightarrow> categorized \<Rightarrow> exn + categorized" where
  "append_to key x cat =
     (case map_of cat key of
        None \<Rightarrow> Inl (KeyError key)
      | Some xs \<Rightarrow> Inr (map (\<lambda>(k, v). if k = key then (k, v @ [x]) else (k, v)) cat))"

text \<open>The key of line 155: \<open>f"{source.capitalize()} {offense.offense_type}s"\<close>.\<close>

definition bucket_key :: "string \<Rightarrow> any_offense \<Rightarrow> string" where
  "bucket_key src x = capitalize src @ '' '' @ offense_type (row_of x) @ ''s''"

fun categorize :: "db \<Rightarrow> criminal list \<Rightarrow> categorized \<Rightarrow> exn + categorized" where
  "categorize d [] cat = Inr cat"
| "categorize d (c # cs) cat =
     (case get_highest_offense d c of
        Inl e \<Rightarrow> Inl e
      | Inr (score, src, None) \<Rightarrow> categorize d cs cat
      | Inr (score, src, Some x) \<Rightarrow>
          (case src of
             None \<Rightarrow> Inl AttributeError
           | Some s \<Rightarrow>
               (case append_to (bucket_key s x) (c, x) cat of
                  Inl e \<Rightarrow> Inl e
                | Inr cat' \<Rightarrow> categorize d cs cat')))"

definition view_all_criminals :: "db \<Rightarrow> exn + categorized" where
  "view_all_criminals d =
     (case get_criminals_with_offenses d of
        Inl e \<Rightarrow> Inl e
      | Inr criminals' \<Rightarrow> categorize d criminals' categorized_init)"

section \<open>The user app: accounts\<close>

text \<open>
  \<open>user/models.py\<close>: the columns of \<open>CustomUser\<close> that the recovery flow, the expiry
  check and the sweep read or write. \<open>None\<close> is SQL \<open>NULL\<close>.
\<close>

record account =
  user_id :: nat
  username :: string
  email :: string
  password :: string
  first_login :: bool
  security_question :: "string option"
  security_answer :: "string option"
  expiration_date :: "int option"

text \<open>
  \<open>is_expired\<close> returns the value of a Python \<open>and\<close>: its left operand when that is
  falsy (\<open>None\<close> here, a date being always truthy), its right operand otherwise.
\<close>

datatype pyval = PyNone | PyBool bool

fun truthy :: "pyval \<Rightarrow> bool" where
  "truthy PyNone = False"
| "truthy (PyBool b) = b"

definition is_expired :: "account \<Rightarrow> int \<Rightarrow> pyval" where
  "is_expired u today =
     (case expiration_date u of
        None \<Rightarrow> PyNone
      | Some d \<Rightarrow> PyBool (today > d))"

text \<open>
  \<open>delete_expired_users\<close>: \<open>filter(expiration_date__lte=now())\<close> compares the date column
  with the date of \<open>now()\<close>; a \<open>NULL\<close> date matches no comparison. The task deletes the
  matching rows and returns its message.
\<close>

definition expired_by :: "int \<Rightarrow> account \<Rightarrow> bool" where
  "expired_by today u = (case expiration_date u of None \<Rightarrow> False | Some d \<Rightarrow> d \<le> today)"

definition delete_expired_users :: "int \<Rightarrow> account list \<Rightarrow> string \<times> account list" where
  "delete_expired_users today users =
     (let expired_users = filter (expired_by today) users;
          count = length expired_users
      in (''Deleted '' @ str_nat count @ '' expired users.'',
          if count \<noteq> 0 then filter (\<lambda>u. \<not> expired_by today u) users else users))"

section \<open>Requests, responses and messages\<close>

text \<open>
  A view returns a redirect to a named route or a rendered template; a redirect is kept
  by the name the view passes, and resolving the name is the URL configuration's. The
  messages framework is the list of the messages added so far; the message of the bulk import's
  \<open>except Exception as e\<close> handler keeps the exception it formats.
\<close>

datatype response = Redirect string | Render string

datatype level = SUCCESS | WARNING | ERROR

datatype message = Message level string | ErrorProcessingFile exn

section \<open>Creating criminals, offenses and links\<close>

text \<open>A new row gets a primary key larger than every key of its table.\<close>

definition next_pk :: "nat list \<Rightarrow> nat" where
  "next_pk pks = Suc (fold max pks 0)"

text \<open>\<open>Criminal.objects.create(first_name=fn, last_name=ln)\<close>.\<close>

definition create_criminal :: "string \<Rightarrow> string \<Rightarrow> db \<Rightarrow> criminal \<times> db" where
  "create_criminal fn ln d =
     (let c = \<lparr>criminal_pk = next_pk (map criminal_pk (criminals d)),
                first_name = fn, last_name = ln, date_of_birth = None\<rparr>
      in (c, d\<lparr>criminals := criminals d @ [c]\<rparr>))"

text \<open>
  \<open>objects.get_or_create(offense_type=..., offense_class=..., description=...)\<close> on one
  offense table: \<open>get\<close> returns the only matching row, raises \<open>MultipleObjectsReturned\<close>
  when several rows match, and a new row is inserted when none does.
\<close>

definition same_triple :: "string \<Rightarrow> string \<Rightarrow> string \<Rightarrow> offense \<Rightarrow> bool" where
  "same_triple t c desc x =
     (offense_type x = t \<and> offense_class x = c \<and> description x = desc)"

definition get_or_create ::
  "offense list \<Rightarrow> string \<Rightarrow> string \<Rightarrow> string \<Rightarrow> exn + (offense \<times> bool) \<times> offense list" where
  "get_or_create tbl t c desc =
     (case filter (same_triple t c desc) tbl of
        [] \<Rightarrow> (let x = \<lparr>pk = next_pk (map pk tbl), offense_type = t,
                          offense_class = c, description = desc\<rparr>
               in Inr ((x, True), tbl @ [x]))
      | [x] \<Rightarrow> Inr ((x, False), tbl)
      | _ \<Rightarrow> Inl MultipleObjectsReturned)"

text \<open>The model class chosen by \<open>offense_source\<close>, and \<open>get_or_create\<close> on its table.\<close>

datatype offense_model = FederalOffenseModel | VACodeOffenseModel

fun objects_get_or_create ::
  "offense_model \<Rightarrow> string \<Rightarrow> string \<Rightarrow> string \<Rightarrow> db \<Rightarrow> exn + (any_offense \<times> bool) \<times> db" where
  "objects_get_or_create FederalOffenseModel t c desc d =
     (case get_or_create (federal_offenses d) t c desc of
        Inl e \<Rightarrow> Inl e
      | Inr ((x, created), tbl) \<Rightarrow> Inr ((FederalOffense x, created), d\<lparr>federal_offenses := tbl\<rparr>))"
| "objects_get_or_create VACodeOffenseModel t c desc d =
     (case get_or_create (vacode_offenses d) t c desc of
        Inl e \<Rightarrow> Inl e
      | Inr ((x, created), tbl) \<Rightarrow> Inr ((VACodeOffense x, created), d\<lparr>vacode_offenses := tbl\<rparr>))"

text \<open>
  \<open>CriminalOffenseLink.objects.create(criminal=..., federal_offense=..., vacode_offense=...)\<close>
  with the two \<open>isinstance\<close> tests of the views; the other columns take their defaults.
\<close>

definition create_link :: "criminal \<Rightarrow> any_offense \<Rightarrow> db \<Rightarrow> db" where
  "create_link c offense_obj d =
     d\<lparr>links := links d @
        [\<lparr>link_pk = next_pk (map link_pk (links d)),
          criminal_id = criminal_pk c,
          federal_offense_id = (case offense_obj of FederalOffense x \<Rightarrow> Some (pk x) | VACodeOffense _ \<Rightarrow> None),
          vacode_offense_id = (case offense_obj of VACodeOffense x \<Rightarrow> Some (pk x) | FederalOffense _ \<Rightarrow> None),
          date_charged = None, convicted = False\<rparr>]\<rparr>"

section \<open>The single-add form\<close>

text \<open>
  \<open>criminals/forms.py\<close>. Both forms are bound to the same \<open>request.POST\<close>; a field of it is
  \<open>None\<close> when the request did not send it. Cleaning a field gives its cleaned value, or
  \<open>None\<close> when the field has an error. A \<open>CharField\<close> strips its value, is required, and
  refuses a null character and a value longer than its \<open>max_length\<close>. A \<open>ChoiceField\<close> is
  required and accepts only the keys of its choices; \<open>offense_class\<close> is declared with
  \<open>choices=[]\<close>.
\<close>

record post_data =
  post_first_name :: "string option"
  post_last_name :: "string option"
  post_description :: "string option"
  post_offense_source :: "string option"
  post_offense_type :: "string option"
  post_offense_class :: "string option"

definition CharField :: "nat option \<Rightarrow> string option \<Rightarrow> string option" where
  "CharField max_length raw =
     (let v = (case raw of None \<Rightarrow> [] | Some s \<Rightarrow> strip s) in
      if v = [] then None
      else if CHR 0x00 \<in> set v then None
      else if (case max_length of None \<Rightarrow> False | Some n \<Rightarrow> n < length v) then None
      else Some v)"

definition ChoiceField :: "(string \<times> string) list \<Rightarrow> string option \<Rightarrow> string option" where
  "ChoiceField choices raw =
     (let v = (case raw of None \<Rightarrow> [] | Some s \<Rightarrow> s) in
      if v = [] then None
      else if v \<in> set (map fst choices) then Some v
      else None)"

definition OFFENSE_CHOICES :: "(string \<times> string) list" where
  "OFFENSE_CHOICES = [(''federal'', ''Federal''), (''virginia'', ''Virginia'')]"

definition OFFENSE_TYPES :: "(string \<times> string) list" where
  "OFFENSE_TYPES = [(''Felony'', ''Felony''), (''Misdemeanor'', ''Misdemeanor''),
                    (''Infraction'', ''Infraction'')]"

text \<open>\<open>CriminalForm\<close>: the cleaned first and last name when the form is valid.\<close>

definition CriminalForm :: "post_data \<Rightarrow> (string \<times> string) option" where
  "CriminalForm p =
     (case (CharField (Some 100) (post_first_name p), CharField (Some 100) (post_last_name p)) of
        (Some fn, Some ln) \<Rightarrow> Some (fn, ln)
      | _ \<Rightarrow> None)"

text \<open>\<open>CriminalOffenseForm\<close>: its \<open>cleaned_data\<close> when the form is valid.\<close>

record offense_data =
  data_offense_source :: string
  data_offense_type :: string
  data_offense_class :: string
  data_description :: string

definition CriminalOffenseForm :: "post_data \<Rightarrow> offense_data option" where
  "CriminalOffenseForm p =
     (case (CharField (Some 100) (post_first_name p), CharField (Some 100) (post_last_name p),
            CharField None (post_description p),
            ChoiceField OFFENSE_CHOICES (post_offense_source p),
            ChoiceField OFFENSE_TYPES (post_offense_type p),
            ChoiceField [] (post_offense_class p)) of
        (Some fn, Some ln, Some desc, Some src, Some t, Some c) \<Rightarrow>
          Some \<lparr>data_offense_source = src, data_offense_type = t,
                data_offense_class = c, data_description = desc\<rparr>
      | _ \<Rightarrow> None)"

text \<open>
  \<open>add_criminal\<close>. The view runs in no transaction, so an exception of \<open>get_or_create\<close>
  would leave the criminal that \<open>criminal_form.save()\<close> has stored.
\<close>

record add_request =
  add_method :: string
  POST :: post_data

definition add_criminal :: "add_request \<Rightarrow> db \<Rightarrow> (exn + response) \<times> message list \<times> db" where
  "add_criminal request d =
     (if add_method request = ''POST'' then
        (case (CriminalForm (POST request), CriminalOffenseForm (POST request)) of
           (Some (fn, ln), Some data) \<Rightarrow>
             (let (criminal, d1) = create_criminal fn ln d;
                  offense_model = (if data_offense_source data = ''federal''
                                   then FederalOffenseModel else VACodeOffenseModel)
              in case objects_get_or_create offense_model (data_offense_type data)
                        (data_offense_class data) (data_description data) d1 of
                   Inl e \<Rightarrow> (Inl e, [], d1)
                 | Inr ((offense_obj, created), d2) \<Rightarrow>
                     (Inr (Redirect ''home''),
                      [Message SUCCESS ''Criminal successfully added.''],
                      create_link criminal offense_obj d2))
         | _ \<Rightarrow> (Inr (Render ''criminals/add_criminal.html''),
                 [Message ERROR ''There were errors in the form.''], d))
      else (Inr (Render ''criminals/add_criminal.html''), [], d))"

section \<open>Bulk import of criminals\<close>

text \<open>
  \<open>mass_add_criminals\<close>. The uploaded file is given by its name and by the rows that
  \<open>csv.reader\<close> yields for its decoded content. The state of the row loop is the
  database together with the loop's local variables and the messages added so far.
\<close>

record csv_upload =
  upload_name :: string
  upload_rows :: "string list list"

record import_request =
  import_method :: string
  csv_file :: "csv_upload option"

record import_state =
  current_criminal :: "criminal option"
  current_name :: "(string \<times> string) option"
  count :: nat
  messages :: "message list"
  store :: db

definition expected_header :: "string list" where
  "expected_header = [''first_name'', ''last_name'', ''offense_type'', ''offense_class'',
                      ''description'', ''offense_source'']"

text \<open>
  One pass of the loop body for the row numbered \<open>row_num\<close>. The result is the exception
  that left the body, if any, and the state reached; a criminal of \<open>None\<close> cannot be
  stored in the link's non-null foreign key.
\<close>

definition import_row :: "nat \<Rightarrow> string list \<Rightarrow> import_state \<Rightarrow> exn option \<times> import_state" where
  "import_row row_num row st =
     (if length row \<noteq> 6 then
        (None, st\<lparr>messages := messages st @
           [Message WARNING (''Skipping row '' @ str_nat row_num @ '': wrong number of fields.'')]\<rparr>)
      else
        (let fn = strip (row ! 0); ln = strip (row ! 1); otype = strip (row ! 2);
             oclass = strip (row ! 3); desc = strip (row ! 4); src = strip (row ! 5);
             row_name = (lower fn, lower ln);
             st1 = (if current_name st \<noteq> Some row_name
                    then (let (c, d) = create_criminal fn ln (store st)
                          in st\<lparr>current_criminal := Some c, current_name := Some row_name,
                                store := d\<rparr>)
                    else st);
             offense_model = (if lower src = ''federal''
                              then FederalOffenseModel else VACodeOffenseModel)
         in case objects_get_or_create offense_model otype oclass desc (store st1) of
              Inl e \<Rightarrow> (Some e, st1)
            | Inr ((offense_obj, created), d2) \<Rightarrow>
                (case current_criminal st1 of
                   None \<Rightarrow> (Some IntegrityError, st1\<lparr>store := d2\<rparr>)
                 | Some c \<Rightarrow>
                     (None, st1\<lparr>store := create_link c offense_obj d2,
                                count := Suc (count st1)\<rparr>))))"

fun import_rows :: "nat \<Rightarrow> string list list \<Rightarrow> import_state \<Rightarrow> exn option \<times> import_state" where
  "import_rows row_num [] st = (None, st)"
| "import_rows row_num (row # rows) st =
     (case import_row row_num row st of
        (Some e, st') \<Rightarrow> (Some e, st')
      | (None, st') \<Rightarrow> import_rows (Suc row_num) rows st')"

definition import_init :: "db \<Rightarrow> import_state" where
  "import_init d = \<lparr>current_criminal = None, current_name = None, count = 0,
                     messages = [], store = d\<rparr>"

text \<open>
  The view itself. \<open>transaction.atomic()\<close> around the loop: when an exception leaves the
  block the database is the one from before the block, and the handler outside adds
  its message; the messages added inside the block stay.
\<close>

definition mass_add_criminals :: "import_request \<Rightarrow> db \<Rightarrow> response \<times> message list \<times> db" where
  "mass_add_criminals request d =
     (case (if import_method request = ''POST'' then csv_file request else None) of
        None \<Rightarrow> (Render ''criminals/mass_add_criminals.html'', [], d)
      | Some f \<Rightarrow>
          if \<not> endswith (upload_name f) ''.csv'' then
            (Redirect ''mass_add_criminals'',
             [Message ERROR ''Please upload a valid .csv file.''], d)
          else
            (case upload_rows f of
               [] \<Rightarrow> (Redirect ''mass_add_criminals'',
                       [Message ERROR (''Invalid CSV header. Expected: '' @
                          ''first_name,last_name,offense_type,offense_class,description,offense_source'')], d)
             | header # rows \<Rightarrow>
                 if header = [] \<or> map (\<lambda>h. lower (strip h)) header \<noteq> expected_header then
                   (Redirect ''mass_add_criminals'',
                    [Message ERROR (''Invalid CSV header. Expected: '' @
                       ''first_name,last_name,offense_type,offense_class,description,offense_source'')], d)
                 else
                   (case import_rows 2 rows (import_init d) of
                      (None, st) \<Rightarrow>
                        (Redirect ''mass_add'',
                         messages st @ [Message SUCCESS (''Successfully added '' @ str_nat (count st)
                                                          @ '' offense records.'')],
                         store st)
                    | (Some e, st) \<Rightarrow>
                        (Redirect ''mass_add'', messages st @ [ErrorProcessingFile e], d))))"

section \<open>Account recovery\<close>

text \<open>
  \<open>user/views.py\<close>. The session holds the two keys of the recovery flow and its expiry;
  \<open>flush\<close> empties it. A field of \<open>request.POST\<close> is \<open>None\<close> when the form did not send it.
  Password hashing and the password validators are Django's and are parameters of the
  views that call them: \<open>make_password\<close>, \<open>check_password\<close> and \<open>validate_password\<close>.
  The rate limiter in front of the three views is not part of the model.
\<close>

record session =
  recovery_user_id :: "nat option"
  session_security_question :: "string option"
  expiry :: "nat option"

definition empty_session :: session where
  "empty_session = \<lparr>recovery_user_id = None, session_security_question = None, expiry = None\<rparr>"

record site =
  users :: "account list"
  the_session :: session
  site_messages :: "message list"

datatype validation = Passes | ValidationError "string list"

datatype lookup = Found account | DoesNotExist | Multiple

definition lookup_of :: "account list \<Rightarrow> lookup" where
  "lookup_of xs = (case xs of [] \<Rightarrow> DoesNotExist | [u] \<Rightarrow> Found u | _ \<Rightarrow> Multiple)"

text \<open>\<open>User.objects.get(username=username, email=email)\<close> and \<open>User.objects.get(id=user_id)\<close>.\<close>

definition get_by_username_email :: "account list \<Rightarrow> string option \<Rightarrow> string option \<Rightarrow> lookup" where
  "get_by_username_email us name mail =
     lookup_of (filter (\<lambda>u. Some (username u) = name \<and> Some (email u) = mail) us)"

definition get_by_id :: "account list \<Rightarrow> nat \<Rightarrow> lookup" where
  "get_by_id us i = lookup_of (filter (\<lambda>u. user_id u = i) us)"

text \<open>\<open>user.save()\<close>: the stored row with the user's primary key is replaced.\<close>

definition save_user :: "account \<Rightarrow> account list \<Rightarrow> account list" where
  "save_user u us = map (\<lambda>v. if user_id v = user_id u then u else v) us"

definition set_security_answer :: "(string \<Rightarrow> string) \<Rightarrow> account \<Rightarrow> string \<Rightarrow> account" where
  "set_security_answer make_password u raw_answer =
     u\<lparr>security_answer := Some (make_password raw_answer)\<rparr>"

text \<open>\<open>not user_id\<close> and \<open>not question\<close>: \<open>None\<close>, \<open>0\<close> and the empty string are falsy.\<close>

definition falsy_id :: "nat option \<Rightarrow> bool" where
  "falsy_id i = (i = None \<or> i = Some 0)"

definition falsy_str :: "string option \<Rightarrow> bool" where
  "falsy_str q = (q = None \<or> q = Some [])"

record step1_request =
  step1_method :: string
  post_username :: "string option"
  post_email :: "string option"

definition account_recovery_step1 :: "step1_request \<Rightarrow> site \<Rightarrow> (exn + response) \<times> site" where
  "account_recovery_step1 request w =
     (if step1_method request = ''POST'' then
        (case get_by_username_email (users w) (post_username request) (post_email request) of
           Found user \<Rightarrow>
             (Inr (Redirect ''account_recovery_step2''),
              w\<lparr>the_session := (the_session w)\<lparr>recovery_user_id := Some (user_id user),
                    session_security_question := security_question user,
                    expiry := Some 600\<rparr>\<rparr>)
         | DoesNotExist \<Rightarrow>
             (Inr (Render ''users/account_recovery_step1.html''),
              w\<lparr>site_messages := site_messages w @
                   [Message ERROR ''User with that username and email does not exist.'']\<rparr>)
         | Multiple \<Rightarrow> (Inl MultipleObjectsReturned, w))
      else (Inr (Render ''users/account_recovery_step1.html''), w))"

record step2_request =
  step2_method :: string
  post_security_answer :: "string option"

definition account_recovery_step2 ::
  "(string \<Rightarrow> string \<Rightarrow> bool) \<Rightarrow> step2_request \<Rightarrow> site \<Rightarrow> (exn + response) \<times> site" where
  "account_recovery_step2 check_password request w =
     (if falsy_id (recovery_user_id (the_session w))
         \<or> falsy_str (session_security_question (the_session w)) then
        (Inr (Redirect ''account_recovery_step1''),
         w\<lparr>site_messages := site_messages w @
              [Message ERROR ''Session expired or invalid. Please start over.'']\<rparr>)
      else if step2_method request = ''POST'' then
        (case get_by_id (users w) (the (recovery_user_id (the_session w))) of
           Found user \<Rightarrow>
             (case post_security_answer request of
                None \<Rightarrow> (Inl AttributeError, w)
              | Some answer \<Rightarrow>
                  if (case security_answer user of None \<Rightarrow> False
                      | Some encoded \<Rightarrow> check_password (strip answer) encoded)
                  then (Inr (Redirect ''account_recovery_step3''), w)
                  else (Inr (Render ''users/account_recovery_step2.html''),
                        w\<lparr>site_messages := site_messages w @
                             [Message ERROR ''Incorrect security answer.'']\<rparr>))
         | DoesNotExist \<Rightarrow>
             (Inr (Redirect ''account_recovery_step1''),
              w\<lparr>site_messages := site_messages w @ [Message ERROR ''User does not exist.'']\<rparr>)
         | Multiple \<Rightarrow> (Inl MultipleObjectsReturned, w))
      else (Inr (Render ''users/account_recovery_step2.html''), w))"

record step3_request =
  step3_method :: string
  post_new_password :: "string option"
  post_new_password_confirm :: "string option"

fun join_messages :: "string list \<Rightarrow> string" where
  "join_messages [] = []"
| "join_messages [m] = m"
| "join_messages (m # ms) = m @ ''; '' @ join_messages ms"

definition account_recovery_step3 ::
  "(string \<Rightarrow> string) \<Rightarrow> (string \<Rightarrow> account \<Rightarrow> validation) \<Rightarrow> step3_request \<Rightarrow> site
     \<Rightarrow> (exn + response) \<times> site" where
  "account_recovery_step3 make_password validate_password request w =
     (if falsy_id (recovery_user_id (the_session w)) then
        (Inr (Redirect ''account_recovery_step1''),
         w\<lparr>site_messages := site_messages w @
              [Message ERROR ''Session expired or invalid. Please start over.'']\<rparr>)
      else if step3_method request = ''POST'' then
        (if post_new_password request \<noteq> post_new_password_confirm request then
           (Inr (Render ''users/account_recovery_step3.html''),
            w\<lparr>site_messages := site_messages w @ [Message ERROR ''Passwords do not match.'']\<rparr>)
         else
           (case get_by_id (users w) (the (recovery_user_id (the_session w))) of
              Found user \<Rightarrow>
                (case post_new_password request of
                   None \<Rightarrow> (Inl AttributeError, w)
                 | Some new_password \<Rightarrow>
                     (case validate_password new_password user of
                        ValidationError ms \<Rightarrow>
                          (Inr (Render ''users/account_recovery_step3.html''),
                           w\<lparr>site_messages := site_messages w @
                                [Message ERROR (''Password validation error: '' @ join_messages ms)]\<rparr>)
                      | Passes \<Rightarrow>
                          (Inr (Redirect ''login''),
                           \<lparr>users = save_user (user\<lparr>password := make_password new_password\<rparr>) (users w),
                            the_session = empty_session,
                            site_messages = site_messages w @
                              [Message SUCCESS ''Password reset successful. You can now log in.'']\<rparr>)))
            | DoesNotExist \<Rightarrow>
                (Inr (Redirect ''account_recovery_step1''),
                 w\<lparr>site_messages := site_messages w @ [Message ERROR ''User does not exist.'']\<rparr>)
            | Multiple \<Rightarrow> (Inl MultipleObjectsReturned, w)))
      else (Inr (Render ''users/account_recovery_step3.html''), w))"

section \<open>Scores and the offenses of a criminal\<close>

text \<open>
  The score the loop of \<open>get_highest_offense\<close> gives an offense, and the offenses it
  meets: those of the links that have one attached, in iteration order.
\<close>

definition score :: "any_offense \<Rightarrow> nat" where
  "score x = OFFENSE_PRIORITY (offense_type (row_of x))"

definition offenses_of :: "db \<Rightarrow> link_row list \<Rightarrow> any_offense list" where
  "offenses_of d ls = List.map_filter (link_offense d) ls"

section \<open>Example records\<close>

definition jane :: criminal where
  "jane = \<lparr>criminal_pk = 1, first_name = ''Jane'', last_name = ''Smith'', date_of_birth = None\<rparr>"

definition jane_db :: db where
  "jane_db = \<lparr>criminals = [jane],
     federal_offenses = [\<lparr>pk = 1, offense_type = ''Felony'', offense_class = ''A'', description = ''Wire fraud''\<rparr>],
     vacode_offenses = [\<lparr>pk = 1, offense_type = ''Misdemeanor'', offense_class = ''1'', description = ''Trespass''\<rparr>],
     links = [\<lparr>link_pk = 1, criminal_id = 1, federal_offense_id = Some 1, vacode_offense_id = None, date_charged = None, convicted = False\<rparr>,
              \<lparr>link_pk = 2, criminal_id = 1, federal_offense_id = None, vacode_offense_id = Some 1, date_charged = None, convicted = False\<rparr>]\<rparr>"

definition example_make_password :: "string \<Rightarrow> string" where
  "example_make_password raw = ''plain$'' @ raw"

definition example_check_password :: "string \<Rightarrow> string \<Rightarrow> bool" where
  "example_check_password raw encoded = (encoded = ''plain$'' @ raw)"

definition example_validate_password :: "string \<Rightarrow> account \<Rightarrow> validation" where
  "example_validate_password p u =
     (if length p < 8
      then ValidationError [''This password is too short. It must contain at least 8 characters.'']
      else Passes)"

definition alice :: account where
  "alice = \<lparr>user_id = 1, username = ''alice'', email = ''alice@example.com'',
            password = ''plain$OldPass123!'', first_login = False,
            security_question = Some ''Favorite color?'',
            security_answer = Some (example_make_password ''blue''),
            expiration_date = None\<rparr>"

definition alice_site :: site where
  "alice_site = \<lparr>users = [alice],
     the_session = \<lparr>recovery_user_id = Some 1,
                     session_security_question = Some ''Favorite color?'', expiry = Some 600\<rparr>,
     site_messages = []\<rparr>"

definition bob :: account where
  "bob = \<lparr>user_id = 2, username = ''bob'', email = ''bob@example.com'',
          password = ''plain$OldPass123!'', first_login = False,
          security_question = Some [], security_answer = None, expiration_date = None\<rparr>"

definition bob_site :: site where
  "bob_site = \<lparr>users = [bob], the_session = empty_session, site_messages = []\<rparr>"

section \<open>Tables, rows and requests named for the statements\<close>

text \<open>
  The table a model class reads and writes, the instance of a model class for a row of
  its table, and the class chosen for an \<open>offense_source\<close>; for a row of the import, the
  \<open>row_name\<close> of the loop, the class its last field selects, and the state after the
  loop's \<open>if current_name != row_name\<close>; the link that \<open>create_link\<close> appends.
\<close>

definition offense_table :: "offense_model \<Rightarrow> db \<Rightarrow> offense list" where
  "offense_table m d =
     (case m of FederalOffenseModel \<Rightarrow> federal_offenses d | VACodeOffenseModel \<Rightarrow> vacode_offenses d)"

definition as_model :: "offense_model \<Rightarrow> offense \<Rightarrow> any_offense" where
  "as_model m x = (case m of FederalOffenseModel \<Rightarrow> FederalOffense x | VACodeOffenseModel \<Rightarrow> VACodeOffense x)"

definition model_of_source :: "string \<Rightarrow> offense_model" where
  "model_of_source src = (if src = ''federal'' then FederalOffenseModel else VACodeOffenseModel)"

definition row_name :: "string list \<Rightarrow> string \<times> string" where
  "row_name row = (lower (strip (row ! 0)), lower (strip (row ! 1)))"

definition new_link :: "criminal \<Rightarrow> any_offense \<Rightarrow> db \<Rightarrow> link_row" where
  "new_link cr x d = last (links (create_link cr x d))"

definition row_criminal_state :: "string list \<Rightarrow> import_state \<Rightarrow> import_state" where
  "row_criminal_state row st =
     (if current_name st \<noteq> Some (row_name row)
      then (let (c, d) = create_criminal (strip (row ! 0)) (strip (row ! 1)) (store st)
            in st\<lparr>current_criminal := Some c, current_name := Some (row_name row), store := d\<rparr>)
      else st)"

definition row_model :: "string list \<Rightarrow> offense_model" where
  "row_model row = model_of_source (lower (strip (row ! 5)))"

section \<open>Example uploads\<close>

text \<open>
  An empty database, a database whose federal table stores one triple twice (as two
  saves through the admin site leave it), and rows of an uploaded file.
\<close>

definition empty_db :: db where
  "empty_db = \<lparr>criminals = [], federal_offenses = [], vacode_offenses = [], links = []\<rparr>"

definition csv_header :: "string list" where
  "csv_header = [''first_name'', ''last_name'', ''offense_type'', ''offense_class'',
                 ''description'', ''offense_source'']"

definition john_row1 :: "string list" where
  "john_row1 = [''John'', ''Doe'', ''Felony'', ''A'', ''Bank robbery'', ''federal'']"

definition john_row2 :: "string list" where
  "john_row2 = [''John'', ''Doe'', ''Misdemeanor'', ''1'', ''Trespassing'', ''virginia'']"

definition jane_row :: "string list" where
  "jane_row = [''Jane'', ''Roe'', ''Infraction'', ''NA'', ''Speeding'', ''virginia'']"

definition upload_request :: "string list list \<Rightarrow> import_request" where
  "upload_request rows =
     \<lparr>import_method = ''POST'',
      csv_file = Some \<lparr>upload_name = ''criminals.csv'', upload_rows = csv_header # rows\<rparr>\<rparr>"

definition john_row3 :: "string list" where
  "john_row3 = ['' JOHN'', ''doe '', ''Felony'', '' A'', ''Bank robbery '', ''Federal'']"

definition duplicate_db :: db where
  "duplicate_db = \<lparr>criminals = [],
     federal_offenses = [\<lparr>pk = 1, offense_type = ''Felony'', offense_class = ''A'', description = ''Bank robbery''\<rparr>,
                         \<lparr>pk = 2, offense_type = ''Felony'', offense_class = ''A'', description = ''Bank robbery''\<rparr>],
     vacode_offenses = [], links = []\<rparr>"

definition invalid_header_message :: message where
  "invalid_header_message = Message ERROR (''Invalid CSV header. Expected: '' @
     ''first_name,last_name,offense_type,offense_class,description,offense_source'')"

section \<open>Names equal up to letter case\<close>

text \<open>
  Equality of two names \<open>case-insensitively\<close>, said without \<open>str.lower\<close>: the names have
  the same length and, position by position, the same character or the upper-case and
  the lower-case form of one letter. Two rows name the same person when their first and
  their last names, surrounding whitespace aside, are equal in this sense.
\<close>

definition same_letter :: "char \<Rightarrow> char \<Rightarrow> bool" where
  "same_letter a b =
     (a = b \<or> (a, b) \<in> set (zip uppercase_letters lowercase_letters)
            \<or> (b, a) \<in> set (zip uppercase_letters lowercase_letters))"

definition equal_ignoring_case :: "string \<Rightarrow> string \<Rightarrow> bool" where
  "equal_ignoring_case s t = list_all2 same_letter s t"

definition same_person :: "string list \<Rightarrow> string list \<Rightarrow> bool" where
  "same_person r1 r2 =
     (equal_ignoring_case (strip (r1 ! 0)) (strip (r2 ! 0))
      \<and> equal_ignoring_case (strip (r1 ! 1)) (strip (r2 ! 1)))"

section \<open>Further example records\<close>

text \<open>
  The Federal Felony of the example database, a row of an upload that lacks its last
  field, and the states of the row loop after the first and after the third row of the
  upload \<open>john_row1\<close>, \<open>jane_short_row\<close>, \<open>john_row3\<close>.
\<close>

definition jane_felony :: offense where
  "jane_felony = \<lparr>pk = 1, offense_type = ''Felony'', offense_class = ''A'', description = ''Wire fraud''\<rparr>"

definition jane_short_row :: "string list" where
  "jane_short_row = [''Jane'', ''Roe'', ''Infraction'', ''NA'', ''Speeding'']"

definition john_state1 :: import_state where
  "john_state1 = snd (import_row 2 john_row1 (import_init empty_db))"

definition john_state2 :: import_state where
  "john_state2 = snd (import_rows 3 [jane_short_row, john_row3] john_state1)"

section \<open>Verified properties\<close>

lemma offenses_of_Nil [simp]: "offenses_of d [] = []"
  by (simp add: offenses_of_def map_filter_simps)

lemma offenses_of_Cons: "offenses_of d (l # ls) =
   (case link_offense d l of None \<Rightarrow> offenses_of d ls | Some x \<Rightarrow> x # offenses_of d ls)"
  by (simp add: offenses_of_def map_filter_simps split: option.split)

lemma highest_loop_char:
  "(\<forall>x\<in>set (offenses_of d ls). score x \<le> s) \<and> highest_loop d ls (s, src, off) = (s, src, off)
   \<or> (\<exists>pre x post. offenses_of d ls = pre @ x # post \<and> s < score x
        \<and> (\<forall>y\<in>set pre. score y < score x) \<and> (\<forall>y\<in>set post. score y \<le> score x)
        \<and> highest_loop d ls (s, src, off) = (score x, Some (source x), Some x))"
proof (induction ls arbitrary: s src off)
  case Nil
  then show ?case by simp
next
  case (Cons l ls)
  show ?case
  proof (cases "link_offense d l")
    case None
    then show ?thesis using Cons.IH[of s src off] by (simp add: offenses_of_Cons)
  next
    case (Some x)
    show ?thesis
    proof (cases "score x > s")
      case True
      from Cons.IH[of "score x" "Some (source x)" "Some x"]
      show ?thesis
      proof
        assume a: "(\<forall>y\<in>set (offenses_of d ls). score y \<le> score x) \<and>
          highest_loop d ls (score x, Some (source x), Some x) = (score x, Some (source x), Some x)"
        have "offenses_of d (l # ls) = [] @ x # offenses_of d ls"
          using Some by (simp add: offenses_of_Cons)
        moreover have "highest_loop d (l # ls) (s, src, off) = (score x, Some (source x), Some x)"
          using Some True a by (simp add: score_def Let_def)
        ultimately show ?thesis using True a
          by (intro disjI2) (rule exI[of _ "[]"], rule exI[of _ x], rule exI[of _ "offenses_of d ls"], simp)
      next
        assume "\<exists>pre y post. offenses_of d ls = pre @ y # post \<and> score x < score y
          \<and> (\<forall>z\<in>set pre. score z < score y) \<and> (\<forall>z\<in>set post. score z \<le> score y)
          \<and> highest_loop d ls (score x, Some (source x), Some x) = (score y, Some (source y), Some y)"
        then obtain pre y post where b: "offenses_of d ls = pre @ y # post" "score x < score y"
          "\<forall>z\<in>set pre. score z < score y" "\<forall>z\<in>set post. score z \<le> score y"
          "highest_loop d ls (score x, Some (source x), Some x) = (score y, Some (source y), Some y)"
          by blast
        have "offenses_of d (l # ls) = (x # pre) @ y # post"
          using Some b(1) by (simp add: offenses_of_Cons)
        moreover have "highest_loop d (l # ls) (s, src, off) = (score y, Some (source y), Some y)"
          using Some True b(5) by (simp add: score_def Let_def)
        moreover have "\<forall>z\<in>set (x # pre). score z < score y" using b(2,3) by simp
        moreover have "s < score y" using True b(2) by simp
        ultimately show ?thesis using b(4)
          by (intro disjI2) (rule exI[of _ "x # pre"], rule exI[of _ y], rule exI[of _ post], simp)
      qed
    next
      case False
      from Cons.IH[of s src off]
      show ?thesis
      proof
        assume a: "(\<forall>y\<in>set (offenses_of d ls). score y \<le> s) \<and>
          highest_loop d ls (s, src, off) = (s, src, off)"
        then show ?thesis using Some False by (simp add: offenses_of_Cons score_def Let_def)
      next
        assume "\<exists>pre y post. offenses_of d ls = pre @ y # post \<and> s < score y
          \<and> (\<forall>z\<in>set pre. score z < score y) \<and> (\<forall>z\<in>set post. score z \<le> score y)
          \<and> highest_loop d ls (s, src, off) = (score y, Some (source y), Some y)"
        then obtain pre y post where b: "offenses_of d ls = pre @ y # post" "s < score y"
          "\<forall>z\<in>set pre. score z < score y" "\<forall>z\<in>set post. score z \<le> score y"
          "highest_loop d ls (s, src, off) = (score y, Some (source y), Some y)"
          by blast
        have "offenses_of d (l # ls) = (x # pre) @ y # post"
          using Some b(1) by (simp add: offenses_of_Cons)
        moreover have "highest_loop d (l # ls) (s, src, off) = (score y, Some (source y), Some y)"
          using Some False b(5) by (simp add: score_def Let_def)
        moreover have "\<forall>z\<in>set (x # pre). score z < score y" using b(2,3) False by simp
        ultimately show ?thesis using b(2,4)
          by (intro disjI2) (rule exI[of _ "x # pre"], rule exI[of _ y], rule exI[of _ post], simp)
      qed
    qed
  qed
qed

lemma reverse_accessor_eval: "reverse_accessor = ''criminaloffenselink_set''"
  by (simp add: reverse_accessor_def criminal_related_name_def lower_def lower_char_def
        uppercase_letters_def lowercase_letters_def)

lemma offense_links_raises: "offense_links d c = Inl AttributeError"
  by (simp add: offense_links_def related_links_def reverse_accessor_eval)

lemma related_links_accessor:
  "related_links d c ''criminaloffenselink_set'' =
     Inr (filter (\<lambda>l. criminal_id l = criminal_pk c) (links d))"
  by (simp add: related_links_def reverse_accessor_eval)

lemma jane_loop:
  "highest_loop jane_db (links jane_db) (0, None, None) =
     (3, Some ''federal'', Some (FederalOffense jane_felony))"
  by (simp add: jane_db_def link_offense_def federal_offense_def vacode_offense_def
        OFFENSE_PRIORITY_def jane_felony_def)

text \<open>
  Claim C1. The six-bucket grouping should place every person with an attached offense
  in the bucket of that person's highest offense. The view does not get that far. The
  queryset it iterates prefetches the relation \<open>offense_links\<close>, which \<open>Criminal\<close> does not
  have, the foreign key of the link table declaring no \<open>related_name\<close>: as soon as one
  criminal is stored the view raises \<open>AttributeError\<close> and produces no grouping; it does
  so for Jane Smith, linked to a Federal Felony and a Virginia Misdemeanor. Beyond that,
  the key built for a Federal Felony is \<open>Federal Felonys\<close>, which is none of the six keys
  of the dictionary, whose bucket is \<open>Federal Felons\<close>.
\<close>

theorem view_all_criminals_raises:
  "view_all_criminals d = (if criminals d = [] then Inr categorized_init else Inl AttributeError)
   \<and> criminals jane_db = [jane]
   \<and> view_all_criminals jane_db = Inl AttributeError
   \<and> bucket_key ''federal'' (FederalOffense jane_felony) = ''Federal Felonys''
   \<and> append_to (bucket_key ''federal'' (FederalOffense jane_felony))
        (jane, FederalOffense jane_felony) categorized_init = Inl (KeyError ''Federal Felonys'')"
proof -
  have a: "view_all_criminals d =
      (if criminals d = [] then Inr categorized_init else Inl AttributeError)"
    by (simp add: view_all_criminals_def get_criminals_with_offenses_def prefetch_related_def
          reverse_accessor_eval)
  have j: "criminals jane_db = [jane]" by (simp add: jane_db_def)
  have b: "view_all_criminals jane_db = Inl AttributeError"
    by (simp add: view_all_criminals_def get_criminals_with_offenses_def prefetch_related_def
          reverse_accessor_eval j)
  have k: "bucket_key ''federal'' (FederalOffense jane_felony) = ''Federal Felonys''"
    by (simp add: bucket_key_def jane_felony_def upper_char_def lower_def lower_char_def
          uppercase_letters_def lowercase_letters_def)
  have e: "append_to ''Federal Felonys'' (jane, FederalOffense jane_felony) categorized_init =
      Inl (KeyError ''Federal Felonys'')"
    by (simp add: append_to_def categorized_init_def)
  from a j b k e show ?thesis by simp
qed

text \<open>
  Claim C2. \<open>get_highest_offense\<close> should return the first offense of maximal priority
  among the person's links. Its first statement reads \<open>criminal.offense_links\<close>, an
  attribute no \<open>Criminal\<close> has: the function raises \<open>AttributeError\<close> for every criminal
  and every database, and returns no offense at all.
\<close>

theorem get_highest_offense_raises:
  "get_highest_offense d c = Inl AttributeError
   \<and> get_highest_offense jane_db jane = Inl AttributeError"
  by (simp add: get_highest_offense_def offense_links_raises)

text \<open>
  Claim C8. \<open>is_expired\<close> is truthy exactly when the account has an expiration date that
  is strictly before today: an account expiring today or tomorrow is not expired, one
  that expired yesterday is, and one without an expiration date never is.
\<close>

theorem is_expired_strict:
  "truthy (is_expired u today) = (\<exists>d. expiration_date u = Some d \<and> d < today)
   \<and> \<not> truthy (is_expired (u\<lparr>expiration_date := Some today\<rparr>) today)
   \<and> \<not> truthy (is_expired (u\<lparr>expiration_date := Some (today + 1)\<rparr>) today)
   \<and> truthy (is_expired (u\<lparr>expiration_date := Some (today - 1)\<rparr>) today)
   \<and> \<not> truthy (is_expired (u\<lparr>expiration_date := None\<rparr>) today)"
  by (cases "expiration_date u") (simp_all add: is_expired_def)

text \<open>
  Claim C9. The sweep removes exactly the accounts whose expiration date is at most the
  current date and keeps every other account; its message reports the number of accounts
  removed; a second run right after the first removes nothing, reports 0 and leaves the
  stored accounts as they are.
\<close>

theorem delete_expired_users_exact:
  "expired_by today u = (\<exists>d. expiration_date u = Some d \<and> d \<le> today)
   \<and> snd (delete_expired_users today us) = filter (\<lambda>u. \<not> expired_by today u) us
   \<and> fst (delete_expired_users today us) =
        ''Deleted '' @ str_nat (length (filter (expired_by today) us)) @ '' expired users.''
   \<and> length us - length (snd (delete_expired_users today us)) =
        length (filter (expired_by today) us)
   \<and> delete_expired_users today (snd (delete_expired_users today us)) =
        (''Deleted 0 expired users.'', snd (delete_expired_users today us))"
proof -
  have a: "expired_by today u = (\<exists>d. expiration_date u = Some d \<and> d \<le> today)"
    by (cases "expiration_date u") (simp_all add: expired_by_def)
  have keep: "filter (expired_by today) us = [] \<Longrightarrow> filter (\<lambda>u. \<not> expired_by today u) us = us"
    by (induction us) (auto split: if_splits)
  have b: "snd (delete_expired_users today us) = filter (\<lambda>u. \<not> expired_by today u) us"
    using keep by (simp add: delete_expired_users_def Let_def)
  have c: "fst (delete_expired_users today us) =
        ''Deleted '' @ str_nat (length (filter (expired_by today) us)) @ '' expired users.''"
    by (simp add: delete_expired_users_def Let_def)
  have "length (filter (expired_by today) us) + length (filter (\<lambda>u. \<not> expired_by today u) us) = length us"
    by (rule sum_length_filter_compl)
  then have d: "length us - length (snd (delete_expired_users today us)) =
        length (filter (expired_by today) us)"
    by (simp add: b)
  have z: "str_nat 0 = ''0''" by (simp add: str_nat.simps)
  have e: "delete_expired_users today (snd (delete_expired_users today us)) =
        (''Deleted 0 expired users.'', snd (delete_expired_users today us))"
    by (simp add: b delete_expired_users_def Let_def z)
  from a b c d e show ?thesis by blast
qed

text \<open>
  Claim C6. In recovery step 3, with a recovery user id in the session, a POST whose new
  password differs from its confirmation renders step 3 again with the mismatch message
  and leaves the stored accounts as they are; so does a POST whose password the
  validators reject.
\<close>

theorem account_recovery_step3_failure_no_write:
  assumes "\<not> falsy_id (recovery_user_id (the_session w))"
      and "step3_method request = ''POST''"
  shows "(post_new_password request \<noteq> post_new_password_confirm request \<longrightarrow>
            account_recovery_step3 mk vp request w =
              (Inr (Render ''users/account_recovery_step3.html''),
               w\<lparr>site_messages := site_messages w @ [Message ERROR ''Passwords do not match.'']\<rparr>)
            \<and> users (snd (account_recovery_step3 mk vp request w)) = users w)
       \<and> (\<forall>user p ms. post_new_password request = Some p
             \<and> post_new_password_confirm request = Some p
             \<and> get_by_id (users w) (the (recovery_user_id (the_session w))) = Found user
             \<and> vp p user = ValidationError ms \<longrightarrow>
            account_recovery_step3 mk vp request w =
              (Inr (Render ''users/account_recovery_step3.html''),
               w\<lparr>site_messages := site_messages w @
                    [Message ERROR (''Password validation error: '' @ join_messages ms)]\<rparr>)
            \<and> users (snd (account_recovery_step3 mk vp request w)) = users w)"
  using assms by (simp add: account_recovery_step3_def)

theorem account_recovery_step3_failure_no_write_witness:
  "users (snd (account_recovery_step3 example_make_password example_validate_password
       \<lparr>step3_method = ''POST'', post_new_password = Some ''NewPass123!'',
        post_new_password_confirm = Some ''NewPass124!''\<rparr> alice_site)) = [alice]
   \<and> users (snd (account_recovery_step3 example_make_password example_validate_password
       \<lparr>step3_method = ''POST'', post_new_password = Some ''short'',
        post_new_password_confirm = Some ''short''\<rparr> alice_site)) = [alice]"
proof -
  have s: "\<not> falsy_id (recovery_user_id (the_session alice_site))"
    by (simp add: falsy_id_def alice_site_def)
  have g: "get_by_id (users alice_site) (the (recovery_user_id (the_session alice_site))) = Found alice"
    by (simp add: get_by_id_def lookup_of_def alice_site_def alice_def)
  have v: "example_validate_password ''short'' alice =
      ValidationError [''This password is too short. It must contain at least 8 characters.'']"
    by (simp add: example_validate_password_def)
  have u: "users alice_site = [alice]" by (simp add: alice_site_def)
  have a: "users (snd (account_recovery_step3 example_make_password example_validate_password
       \<lparr>step3_method = ''POST'', post_new_password = Some ''NewPass123!'',
        post_new_password_confirm = Some ''NewPass124!''\<rparr> alice_site)) = [alice]"
    using account_recovery_step3_failure_no_write[OF s, of
        "\<lparr>step3_method = ''POST'', post_new_password = Some ''NewPass123!'',
          post_new_password_confirm = Some ''NewPass124!''\<rparr>"
        example_make_password example_validate_password] u
    by simp
  have b: "users (snd (account_recovery_step3 example_make_password example_validate_password
       \<lparr>step3_method = ''POST'', post_new_password = Some ''short'',
        post_new_password_confirm = Some ''short''\<rparr> alice_site)) = [alice]"
    using account_recovery_step3_failure_no_write[OF s, of
        "\<lparr>step3_method = ''POST'', post_new_password = Some ''short'',
          post_new_password_confirm = Some ''short''\<rparr>"
        example_make_password example_validate_password] g v u
    by simp
  from a b show ?thesis by simp
qed

text \<open>
  Claim C7. For an account whose security answer was set to a given text, and a hasher
  under which a raw text verifies against a stored hash exactly when it is the hashed
  text, a posted answer passes step 2 exactly when the answer with its surrounding
  whitespace removed equals the stored text, letter case included. The texts \<open>blue\<close> and
  \<open>blue\<close> between spaces strip to \<open>blue\<close>, and so does \<open>blue\<close> between a no-break space and
  a next-line character; \<open>Blue\<close> does not.
\<close>

theorem account_recovery_step2_trims_answer:
  assumes "\<forall>raw stored. check_password raw (make_password stored) = (raw = stored)"
      and "recovery_user_id (the_session w) = Some uid" and "uid \<noteq> 0"
      and "\<not> falsy_str (session_security_question (the_session w))"
      and "get_by_id (users w) uid = Found (set_security_answer make_password u stored_answer)"
      and "step2_method request = ''POST''"
      and "post_security_answer request = Some answer"
  shows "(fst (account_recovery_step2 check_password request w)
            = Inr (Redirect ''account_recovery_step3'')) = (strip answer = stored_answer)
       \<and> (strip answer \<noteq> stored_answer \<longrightarrow>
            fst (account_recovery_step2 check_password request w)
              = Inr (Render ''users/account_recovery_step2.html''))
       \<and> strip ''blue'' = ''blue'' \<and> strip '' blue '' = ''blue'' \<and> strip ''Blue'' = ''Blue''
       \<and> ''Blue'' \<noteq> ''blue''
       \<and> strip (CHR 0xA0 # ''blue'' @ [CHR 0x85]) = ''blue''"
  using assms
  by (simp add: account_recovery_step2_def falsy_id_def set_security_answer_def strip_def is_space_def)

theorem account_recovery_step2_trims_answer_witness:
  "fst (account_recovery_step2 example_check_password
           \<lparr>step2_method = ''POST'', post_security_answer = Some ''blue''\<rparr> alice_site)
      = Inr (Redirect ''account_recovery_step3'')
   \<and> fst (account_recovery_step2 example_check_password
           \<lparr>step2_method = ''POST'', post_security_answer = Some '' blue ''\<rparr> alice_site)
      = Inr (Redirect ''account_recovery_step3'')
   \<and> fst (account_recovery_step2 example_check_password
           \<lparr>step2_method = ''POST'', post_security_answer = Some ''Blue''\<rparr> alice_site)
      = Inr (Render ''users/account_recovery_step2.html'')"
proof -
  have i: "\<forall>raw stored. example_check_password raw (example_make_password stored) = (raw = stored)"
    by (auto simp: example_check_password_def example_make_password_def)
  have g: "get_by_id (users alice_site) 1 =
      Found (set_security_answer example_make_password alice ''blue'')"
    by (simp add: get_by_id_def lookup_of_def alice_site_def alice_def set_security_answer_def)
  have q: "\<not> falsy_str (session_security_question (the_session alice_site))"
    by (simp add: falsy_str_def alice_site_def)
  have r: "recovery_user_id (the_session alice_site) = Some 1" by (simp add: alice_site_def)
  have n: "(1::nat) \<noteq> 0" by simp
  note t = account_recovery_step2_trims_answer[OF i r n q g]
  have a: "fst (account_recovery_step2 example_check_password
           \<lparr>step2_method = ''POST'', post_security_answer = Some ''blue''\<rparr> alice_site)
      = Inr (Redirect ''account_recovery_step3'')"
    using t[of "\<lparr>step2_method = ''POST'', post_security_answer = Some ''blue''\<rparr>" "''blue''"]
    by simp
  have b: "fst (account_recovery_step2 example_check_password
           \<lparr>step2_method = ''POST'', post_security_answer = Some '' blue ''\<rparr> alice_site)
      = Inr (Redirect ''account_recovery_step3'')"
    using t[of "\<lparr>step2_method = ''POST'', post_security_answer = Some '' blue ''\<rparr>" "'' blue ''"]
    by simp
  have c: "fst (account_recovery_step2 example_check_password
           \<lparr>step2_method = ''POST'', post_security_answer = Some ''Blue''\<rparr> alice_site)
      = Inr (Render ''users/account_recovery_step2.html'')"
    using t[of "\<lparr>step2_method = ''POST'', post_security_answer = Some ''Blue''\<rparr>" "''Blue''"]
    by simp
  from a b c show ?thesis by simp
qed

lemma filter_by_key_single:
  "distinct (map f xs) \<Longrightarrow> x \<in> set xs \<Longrightarrow> filter (\<lambda>v. f v = f x) xs = [x]"
proof (induction xs)
  case Nil
  then show ?case by simp
next
  case (Cons a xs)
  show ?case
  proof (cases "a = x")
    case True
    with Cons.prems(1) have "\<forall>v\<in>set xs. f v \<noteq> f x" by (auto simp: image_iff)
    then have "filter (\<lambda>v. f v = f x) xs = []" by (simp add: filter_empty_conv)
    with True show ?thesis by simp
  next
    case False
    with Cons.prems have "x \<in> set xs" and "f a \<noteq> f x" by (auto simp: image_iff)
    with Cons.IH Cons.prems(1) show ?thesis by simp
  qed
qed

lemma lookup_of_Found: "lookup_of xs = Found u \<Longrightarrow> xs = [u]"
  by (auto simp: lookup_of_def split: list.splits)

lemma get_by_id_of_found:
  assumes "get_by_username_email us name mail = Found u" and "distinct (map user_id us)"
  shows "get_by_id us (user_id u) = Found u"
proof -
  from assms(1) have "filter (\<lambda>u. Some (username u) = name \<and> Some (email u) = mail) us = [u]"
    by (simp add: get_by_username_email_def lookup_of_Found)
  then have "u \<in> set (filter (\<lambda>u. Some (username u) = name \<and> Some (email u) = mail) us)"
    by simp
  then have "u \<in> set us" by simp
  from filter_by_key_single[OF assms(2) this] show ?thesis
    by (simp add: get_by_id_def lookup_of_def)
qed

lemma get_by_id_save_user:
  assumes "get_by_id us (user_id u) = Found u" and "user_id u' = user_id u"
  shows "get_by_id (save_user u' us) (user_id u) = Found u'"
proof -
  from assms(1) have f: "filter (\<lambda>v. user_id v = user_id u) us = [u]"
    by (simp add: get_by_id_def lookup_of_Found)
  have "filter (\<lambda>v. user_id v = user_id u)
          (map (\<lambda>v. if user_id v = user_id u then u' else v) us)
        = map (\<lambda>v. u') (filter (\<lambda>v. user_id v = user_id u) us)"
    using assms(2) by (induction us) auto
  with f assms(2) show ?thesis
    by (simp add: get_by_id_def save_user_def lookup_of_def)
qed

text \<open>
  Claim C10, as amended. For an account whose security question is null or empty, a
  successful step 1 stores that question and the account's id in the session; from then
  on every access to step 2, whatever the request, redirects to step 1 and leaves the
  session and the accounts unchanged, so the challenge of step 2 is never passed. Step 3
  asks for the recovery user id only: in that same session it renders its form, and a
  POST with a new password, the same confirmation and the validators' consent stores the
  new password for the account, empties the session and redirects to the login page.
\<close>

theorem recovery_without_question_blocked_at_step2:
  assumes "step1_method r1 = ''POST''"
      and "get_by_username_email (users w) (post_username r1) (post_email r1) = Found u"
      and "falsy_str (security_question u)"
      and "user_id u \<noteq> 0"
  shows "fst (account_recovery_step1 r1 w) = Inr (Redirect ''account_recovery_step2'')
       \<and> session_security_question (the_session (snd (account_recovery_step1 r1 w)))
           = security_question u
       \<and> recovery_user_id (the_session (snd (account_recovery_step1 r1 w))) = Some (user_id u)
       \<and> users (snd (account_recovery_step1 r1 w)) = users w
       \<and> (\<forall>cp r2 w'. the_session w' = the_session (snd (account_recovery_step1 r1 w)) \<longrightarrow>
            fst (account_recovery_step2 cp r2 w') = Inr (Redirect ''account_recovery_step1'')
            \<and> the_session (snd (account_recovery_step2 cp r2 w')) = the_session w'
            \<and> users (snd (account_recovery_step2 cp r2 w')) = users w')
       \<and> (\<forall>mk vp r3. step3_method r3 \<noteq> ''POST'' \<longrightarrow>
            account_recovery_step3 mk vp r3 (snd (account_recovery_step1 r1 w))
              = (Inr (Render ''users/account_recovery_step3.html''),
                 snd (account_recovery_step1 r1 w)))
       \<and> (\<forall>mk vp r3 p. distinct (map user_id (users w)) \<and> step3_method r3 = ''POST''
             \<and> post_new_password r3 = Some p \<and> post_new_password_confirm r3 = Some p
             \<and> vp p u = Passes \<longrightarrow>
            account_recovery_step3 mk vp r3 (snd (account_recovery_step1 r1 w))
              = (Inr (Redirect ''login''),
                 \<lparr>users = save_user (u\<lparr>password := mk p\<rparr>) (users w),
                  the_session = empty_session,
                  site_messages = site_messages w @
                    [Message SUCCESS ''Password reset successful. You can now log in.'']\<rparr>)
            \<and> get_by_id (save_user (u\<lparr>password := mk p\<rparr>) (users w)) (user_id u)
                = Found (u\<lparr>password := mk p\<rparr>))"
proof -
  have old: "fst (account_recovery_step1 r1 w) = Inr (Redirect ''account_recovery_step2'')
       \<and> session_security_question (the_session (snd (account_recovery_step1 r1 w)))
           = security_question u
       \<and> recovery_user_id (the_session (snd (account_recovery_step1 r1 w))) = Some (user_id u)
       \<and> users (snd (account_recovery_step1 r1 w)) = users w
       \<and> (\<forall>cp r2 w'. the_session w' = the_session (snd (account_recovery_step1 r1 w)) \<longrightarrow>
            fst (account_recovery_step2 cp r2 w') = Inr (Redirect ''account_recovery_step1'')
            \<and> the_session (snd (account_recovery_step2 cp r2 w')) = the_session w'
            \<and> users (snd (account_recovery_step2 cp r2 w')) = users w')
       \<and> (\<forall>mk vp r3. step3_method r3 \<noteq> ''POST'' \<longrightarrow>
            account_recovery_step3 mk vp r3 (snd (account_recovery_step1 r1 w))
              = (Inr (Render ''users/account_recovery_step3.html''),
                 snd (account_recovery_step1 r1 w)))"
    using assms
    by (simp add: account_recovery_step1_def account_recovery_step2_def account_recovery_step3_def
        falsy_id_def)
  have new: "\<forall>mk vp r3 p. distinct (map user_id (users w)) \<and> step3_method r3 = ''POST''
             \<and> post_new_password r3 = Some p \<and> post_new_password_confirm r3 = Some p
             \<and> vp p u = Passes \<longrightarrow>
            account_recovery_step3 mk vp r3 (snd (account_recovery_step1 r1 w))
              = (Inr (Redirect ''login''),
                 \<lparr>users = save_user (u\<lparr>password := mk p\<rparr>) (users w),
                  the_session = empty_session,
                  site_messages = site_messages w @
                    [Message SUCCESS ''Password reset successful. You can now log in.'']\<rparr>)
            \<and> get_by_id (save_user (u\<lparr>password := mk p\<rparr>) (users w)) (user_id u)
                = Found (u\<lparr>password := mk p\<rparr>)"
  proof (intro allI impI)
    fix mk :: "string \<Rightarrow> string" and vp :: "string \<Rightarrow> account \<Rightarrow> validation"
      and r3 :: step3_request and p :: string
    assume h: "distinct (map user_id (users w)) \<and> step3_method r3 = ''POST''
             \<and> post_new_password r3 = Some p \<and> post_new_password_confirm r3 = Some p
             \<and> vp p u = Passes"
    from get_by_id_of_found[OF assms(2)] h have g: "get_by_id (users w) (user_id u) = Found u"
      by simp
    have a: "account_recovery_step3 mk vp r3 (snd (account_recovery_step1 r1 w))
              = (Inr (Redirect ''login''),
                 \<lparr>users = save_user (u\<lparr>password := mk p\<rparr>) (users w),
                  the_session = empty_session,
                  site_messages = site_messages w @
                    [Message SUCCESS ''Password reset successful. You can now log in.'']\<rparr>)"
      using assms h g
      by (simp add: account_recovery_step1_def account_recovery_step3_def falsy_id_def)
    have b: "get_by_id (save_user (u\<lparr>password := mk p\<rparr>) (users w)) (user_id u)
                = Found (u\<lparr>password := mk p\<rparr>)"
      using get_by_id_save_user[OF g, of "u\<lparr>password := mk p\<rparr>"] by simp
    from a b show "account_recovery_step3 mk vp r3 (snd (account_recovery_step1 r1 w))
              = (Inr (Redirect ''login''),
                 \<lparr>users = save_user (u\<lparr>password := mk p\<rparr>) (users w),
                  the_session = empty_session,
                  site_messages = site_messages w @
                    [Message SUCCESS ''Password reset successful. You can now log in.'']\<rparr>)
            \<and> get_by_id (save_user (u\<lparr>password := mk p\<rparr>) (users w)) (user_id u)
                = Found (u\<lparr>password := mk p\<rparr>)"
      by simp
  qed
  from old new show ?thesis by blast
qed

theorem recovery_without_question_blocked_at_step2_witness:
  "fst (account_recovery_step1
          \<lparr>step1_method = ''POST'', post_username = Some ''bob'',
           post_email = Some ''bob@example.com''\<rparr> bob_site)
     = Inr (Redirect ''account_recovery_step2'')
   \<and> fst (account_recovery_step2 example_check_password
          \<lparr>step2_method = ''POST'', post_security_answer = Some ''anything''\<rparr>
          (snd (account_recovery_step1
             \<lparr>step1_method = ''POST'', post_username = Some ''bob'',
              post_email = Some ''bob@example.com''\<rparr> bob_site)))
     = Inr (Redirect ''account_recovery_step1'')
   \<and> fst (account_recovery_step3 example_make_password example_validate_password
          \<lparr>step3_method = ''POST'', post_new_password = Some ''NewPass123!'',
           post_new_password_confirm = Some ''NewPass123!''\<rparr>
          (snd (account_recovery_step1
             \<lparr>step1_method = ''POST'', post_username = Some ''bob'',
              post_email = Some ''bob@example.com''\<rparr> bob_site)))
     = Inr (Redirect ''login'')
   \<and> get_by_id (save_user (bob\<lparr>password := ''plain$NewPass123!''\<rparr>) (users bob_site)) 2
     = Found (bob\<lparr>password := ''plain$NewPass123!''\<rparr>)"
proof -
  have g: "get_by_username_email (users bob_site)
      (post_username \<lparr>step1_method = ''POST'', post_username = Some ''bob'',
           post_email = Some ''bob@example.com''\<rparr>)
      (post_email \<lparr>step1_method = ''POST'', post_username = Some ''bob'',
           post_email = Some ''bob@example.com''\<rparr>) = Found bob"
    by (simp add: get_by_username_email_def lookup_of_def bob_site_def bob_def)
  have f: "falsy_str (security_question bob)" by (simp add: falsy_str_def bob_def)
  have n: "user_id bob \<noteq> 0" by (simp add: bob_def)
  have m: "step1_method \<lparr>step1_method = ''POST'', post_username = Some ''bob'',
           post_email = Some ''bob@example.com''\<rparr> = ''POST''" by simp
  have d: "distinct (map user_id (users bob_site))" by (simp add: bob_site_def)
  have v: "example_validate_password ''NewPass123!'' bob = Passes"
    by (simp add: example_validate_password_def)
  have k: "example_make_password ''NewPass123!'' = ''plain$NewPass123!''"
    by (simp add: example_make_password_def)
  have i: "user_id bob = 2" by (simp add: bob_def)
  note t = recovery_without_question_blocked_at_step2[OF m g f n]
  from t have a: "fst (account_recovery_step1
          \<lparr>step1_method = ''POST'', post_username = Some ''bob'',
           post_email = Some ''bob@example.com''\<rparr> bob_site)
     = Inr (Redirect ''account_recovery_step2'')" by blast
  from t have b: "fst (account_recovery_step2 example_check_password
          \<lparr>step2_method = ''POST'', post_security_answer = Some ''anything''\<rparr>
          (snd (account_recovery_step1
             \<lparr>step1_method = ''POST'', post_username = Some ''bob'',
              post_email = Some ''bob@example.com''\<rparr> bob_site)))
     = Inr (Redirect ''account_recovery_step1'')" by blast
  from t have c0: "distinct (map user_id (users bob_site))
       \<and> step3_method \<lparr>step3_method = ''POST'', post_new_password = Some ''NewPass123!'',
           post_new_password_confirm = Some ''NewPass123!''\<rparr> = ''POST''
       \<and> post_new_password \<lparr>step3_method = ''POST'', post_new_password = Some ''NewPass123!'',
           post_new_password_confirm = Some ''NewPass123!''\<rparr> = Some ''NewPass123!''
       \<and> post_new_password_confirm \<lparr>step3_method = ''POST'', post_new_password = Some ''NewPass123!'',
           post_new_password_confirm = Some ''NewPass123!''\<rparr> = Some ''NewPass123!''
       \<and> example_validate_password ''NewPass123!'' bob = Passes \<longrightarrow>
       account_recovery_step3 example_make_password example_validate_password
          \<lparr>step3_method = ''POST'', post_new_password = Some ''NewPass123!'',
           post_new_password_confirm = Some ''NewPass123!''\<rparr>
          (snd (account_recovery_step1
             \<lparr>step1_method = ''POST'', post_username = Some ''bob'',
              post_email = Some ''bob@example.com''\<rparr> bob_site))
        = (Inr (Redirect ''login''),
                 \<lparr>users = save_user (bob\<lparr>password := example_make_password ''NewPass123!''\<rparr>) (users bob_site),
                  the_session = empty_session,
                  site_messages = site_messages bob_site @
                    [Message SUCCESS ''Password reset successful. You can now log in.'']\<rparr>)
       \<and> get_by_id (save_user (bob\<lparr>password := example_make_password ''NewPass123!''\<rparr>) (users bob_site)) (user_id bob)
                = Found (bob\<lparr>password := example_make_password ''NewPass123!''\<rparr>)"
    by blast
  from c0 d v have c: "fst (account_recovery_step3 example_make_password example_validate_password
          \<lparr>step3_method = ''POST'', post_new_password = Some ''NewPass123!'',
           post_new_password_confirm = Some ''NewPass123!''\<rparr>
          (snd (account_recovery_step1
             \<lparr>step1_method = ''POST'', post_username = Some ''bob'',
              post_email = Some ''bob@example.com''\<rparr> bob_site)))
     = Inr (Redirect ''login'')"
    and e: "get_by_id (save_user (bob\<lparr>password := ''plain$NewPass123!''\<rparr>) (users bob_site)) 2
     = Found (bob\<lparr>password := ''plain$NewPass123!''\<rparr>)"
    by (simp_all add: k i)
  from a b c e show ?thesis by simp
qed

text \<open>
  Claim C10 as stated fails: for the account \<open>bob\<close>, whose security question is empty,
  step 1 followed by a POST to step 3 with a matching password that the validators
  accept replaces the stored password.
\<close>

theorem recovery_without_question_resets_password:
  "falsy_str (security_question bob)
   \<and> map password (users bob_site) = [''plain$OldPass123!'']
   \<and> fst (account_recovery_step1
          \<lparr>step1_method = ''POST'', post_username = Some ''bob'',
           post_email = Some ''bob@example.com''\<rparr> bob_site)
       = Inr (Redirect ''account_recovery_step2'')
   \<and> fst (account_recovery_step3 example_make_password example_validate_password
          \<lparr>step3_method = ''POST'', post_new_password = Some ''NewPass123!'',
           post_new_password_confirm = Some ''NewPass123!''\<rparr>
          (snd (account_recovery_step1
             \<lparr>step1_method = ''POST'', post_username = Some ''bob'',
              post_email = Some ''bob@example.com''\<rparr> bob_site)))
       = Inr (Redirect ''login'')
   \<and> map password (users (snd (account_recovery_step3 example_make_password example_validate_password
          \<lparr>step3_method = ''POST'', post_new_password = Some ''NewPass123!'',
           post_new_password_confirm = Some ''NewPass123!''\<rparr>
          (snd (account_recovery_step1
             \<lparr>step1_method = ''POST'', post_username = Some ''bob'',
              post_email = Some ''bob@example.com''\<rparr> bob_site)))))
       = [''plain$NewPass123!'']"
  by (simp add: account_recovery_step1_def account_recovery_step3_def get_by_username_email_def
        get_by_id_def lookup_of_def bob_site_def bob_def falsy_str_def falsy_id_def empty_session_def
        example_make_password_def example_validate_password_def save_user_def)

lemma fold_max_ge: "a \<le> fold max xs (a::nat)"
  by (induction xs arbitrary: a) (auto intro: order_trans[OF max.cobounded2])

lemma fold_max_upper: "x \<in> set xs \<Longrightarrow> x \<le> fold max xs (a::nat)"
proof (induction xs arbitrary: a)
  case Nil
  then show ?case by simp
next
  case (Cons y ys)
  show ?case
  proof (cases "x = y")
    case True
    have "y \<le> max y a" by simp
    also have "\<dots> \<le> fold max ys (max y a)" by (rule fold_max_ge)
    finally show ?thesis using True by simp
  next
    case False
    then have "x \<in> set ys" using Cons.prems by simp
    then show ?thesis using Cons.IH by simp
  qed
qed

lemma next_pk_fresh: "next_pk pks \<notin> set pks"
proof
  assume "next_pk pks \<in> set pks"
  then have "next_pk pks \<le> fold max pks 0" by (rule fold_max_upper)
  then show False by (simp add: next_pk_def)
qed

lemma find_by_pk:
  "distinct (map pk xs) \<Longrightarrow> x \<in> set xs \<Longrightarrow> find (\<lambda>y. pk y = pk x) xs = Some x"
  by (induction xs) (auto simp: image_iff)

lemma get_or_create_first:
  assumes "length (filter (same_triple t c desc) tbl) \<le> 1"
  shows "\<exists>x created tbl'. get_or_create tbl t c desc = Inr ((x, created), tbl')
           \<and> filter (same_triple t c desc) tbl' = [x]
           \<and> (distinct (map pk tbl) \<longrightarrow> distinct (map pk tbl'))"
proof (cases "filter (same_triple t c desc) tbl")
  case Nil
  have "next_pk (map pk tbl) \<notin> set (map pk tbl)" by (rule next_pk_fresh)
  then show ?thesis using Nil
    by (intro exI[of _ "\<lparr>pk = next_pk (map pk tbl), offense_type = t,
                          offense_class = c, description = desc\<rparr>"] exI[of _ True]
          exI[of _ "tbl @ [\<lparr>pk = next_pk (map pk tbl), offense_type = t,
                          offense_class = c, description = desc\<rparr>]"])
       (simp add: get_or_create_def Let_def same_triple_def)
next
  case (Cons x xs)
  then have "xs = []" using assms by simp
  then show ?thesis using Cons
    by (intro exI[of _ x] exI[of _ False] exI[of _ tbl]) (simp add: get_or_create_def)
qed

lemma get_or_create_again:
  "filter (same_triple t c desc) tbl = [x] \<Longrightarrow> get_or_create tbl t c desc = Inr ((x, False), tbl)"
  by (simp add: get_or_create_def)

lemma objects_get_or_create_first:
  assumes "length (filter (same_triple t c desc) (offense_table m d)) \<le> 1"
  shows "\<exists>x created d'. objects_get_or_create m t c desc d = Inr ((as_model m x, created), d')
           \<and> filter (same_triple t c desc) (offense_table m d') = [x]
           \<and> (distinct (map pk (offense_table m d)) \<longrightarrow> distinct (map pk (offense_table m d')))
           \<and> criminals d' = criminals d \<and> links d' = links d"
proof (cases m)
  case FederalOffenseModel
  then have "length (filter (same_triple t c desc) (federal_offenses d)) \<le> 1"
    using assms by (simp add: offense_table_def)
  from get_or_create_first[OF this] obtain x created tbl' where
    g: "get_or_create (federal_offenses d) t c desc = Inr ((x, created), tbl')"
       "filter (same_triple t c desc) tbl' = [x]"
       "distinct (map pk (federal_offenses d)) \<longrightarrow> distinct (map pk tbl')"
    by blast
  show ?thesis
    apply (rule exI[of _ x], rule exI[of _ created], rule exI[of _ "d\<lparr>federal_offenses := tbl'\<rparr>"])
    using g FederalOffenseModel by (simp add: offense_table_def as_model_def)
next
  case VACodeOffenseModel
  then have "length (filter (same_triple t c desc) (vacode_offenses d)) \<le> 1"
    using assms by (simp add: offense_table_def)
  from get_or_create_first[OF this] obtain x created tbl' where
    g: "get_or_create (vacode_offenses d) t c desc = Inr ((x, created), tbl')"
       "filter (same_triple t c desc) tbl' = [x]"
       "distinct (map pk (vacode_offenses d)) \<longrightarrow> distinct (map pk tbl')"
    by blast
  show ?thesis
    apply (rule exI[of _ x], rule exI[of _ created], rule exI[of _ "d\<lparr>vacode_offenses := tbl'\<rparr>"])
    using g VACodeOffenseModel by (simp add: offense_table_def as_model_def)
qed

lemma objects_get_or_create_again:
  assumes "filter (same_triple t c desc) (offense_table m d) = [x]"
  shows "objects_get_or_create m t c desc d = Inr ((as_model m x, False), d)"
  using assms get_or_create_again[of t c desc _ x]
  by (cases m) (simp_all add: offense_table_def as_model_def)

lemma offense_table_create_criminal [simp]:
  "offense_table m (snd (create_criminal fn ln d)) = offense_table m d"
  by (cases m) (simp_all add: offense_table_def create_criminal_def Let_def)

lemma links_create_criminal [simp]:
  "links (snd (create_criminal fn ln d)) = links d"
  by (simp add: create_criminal_def Let_def)

lemma offense_table_create_link [simp]:
  "offense_table m (create_link cr x d) = offense_table m d"
  by (cases m) (simp_all add: offense_table_def create_link_def)

lemma criminals_create_link [simp]:
  "criminals (create_link cr x d) = criminals d"
  by (simp add: create_link_def)

lemma links_create_link:
  "links (create_link cr x d) = links d @ [new_link cr x d]"
  by (simp add: create_link_def new_link_def)

lemma criminal_id_new_link [simp]: "criminal_id (new_link cr x d) = criminal_pk cr"
  by (simp add: create_link_def new_link_def)

lemma link_offense_new_link:
  assumes "x \<in> set (offense_table m d')" and "distinct (map pk (offense_table m d'))"
  shows "link_offense d' (new_link cr (as_model m x) d) = Some (as_model m x)"
  using find_by_pk[OF assms(2,1)]
  by (cases m)
     (simp_all add: link_offense_def federal_offense_def vacode_offense_def new_link_def
        create_link_def as_model_def offense_table_def)

lemma filter_singleton_mem: "filter P xs = [x] \<Longrightarrow> x \<in> set xs"
proof -
  assume "filter P xs = [x]"
  then have "x \<in> set (filter P xs)" by simp
  then show ?thesis by simp
qed

lemma import_row_unfold:
  assumes "length row = 6"
  shows "import_row n row st =
     (case objects_get_or_create (row_model row) (strip (row ! 2)) (strip (row ! 3))
             (strip (row ! 4)) (store (row_criminal_state row st)) of
        Inl e \<Rightarrow> (Some e, row_criminal_state row st)
      | Inr ((offense_obj, created), d2) \<Rightarrow>
          (case current_criminal (row_criminal_state row st) of
             None \<Rightarrow> (Some IntegrityError, (row_criminal_state row st)\<lparr>store := d2\<rparr>)
           | Some c \<Rightarrow>
               (None, (row_criminal_state row st)\<lparr>store := create_link c offense_obj d2,
                          count := Suc (count (row_criminal_state row st))\<rparr>)))"
proof -
  have a: "(if current_name st \<noteq> Some (lower (strip (row ! 0)), lower (strip (row ! 1)))
            then (case create_criminal (strip (row ! 0)) (strip (row ! 1)) (store st) of
                    (c, d) \<Rightarrow> st\<lparr>current_criminal := Some c,
                       current_name := Some (lower (strip (row ! 0)), lower (strip (row ! 1))),
                       store := d\<rparr>)
            else st) = row_criminal_state row st"
    by (simp only: row_criminal_state_def row_name_def Let_def)
  have b: "(if lower (strip (row ! 5)) = ''federal''
            then FederalOffenseModel else VACodeOffenseModel) = row_model row"
    by (simp only: row_model_def model_of_source_def)
  have "import_row n row st =
     (if length row \<noteq> 6 then
        (None, st\<lparr>messages := messages st @
           [Message WARNING (''Skipping row '' @ str_nat n @ '': wrong number of fields.'')]\<rparr>)
      else
        (case objects_get_or_create (row_model row) (strip (row ! 2)) (strip (row ! 3))
             (strip (row ! 4)) (store (row_criminal_state row st)) of
        Inl e \<Rightarrow> (Some e, row_criminal_state row st)
      | Inr ((offense_obj, created), d2) \<Rightarrow>
          (case current_criminal (row_criminal_state row st) of
             None \<Rightarrow> (Some IntegrityError, (row_criminal_state row st)\<lparr>store := d2\<rparr>)
           | Some c \<Rightarrow>
               (None, (row_criminal_state row st)\<lparr>store := create_link c offense_obj d2,
                          count := Suc (count (row_criminal_state row st))\<rparr>))))"
    by (simp only: import_row_def Let_def a b)
  then show ?thesis using assms by simp
qed

lemma rcs_same:
  "current_name st = Some (row_name row) \<Longrightarrow> row_criminal_state row st = st"
  by (simp add: row_criminal_state_def)

lemma rcs_new:
  "current_name st \<noteq> Some (row_name row) \<Longrightarrow>
   row_criminal_state row st =
     st\<lparr>current_criminal := Some (fst (create_criminal (strip (row ! 0)) (strip (row ! 1)) (store st))),
        current_name := Some (row_name row),
        store := snd (create_criminal (strip (row ! 0)) (strip (row ! 1)) (store st))\<rparr>"
  by (simp add: row_criminal_state_def split_def Let_def)

lemma rcs_name [simp]: "current_name (row_criminal_state row st) = Some (row_name row)"
  by (simp add: row_criminal_state_def split_def Let_def)

lemma rcs_table [simp]:
  "offense_table m (store (row_criminal_state row st)) = offense_table m (store st)"
  by (simp add: row_criminal_state_def split_def Let_def)

lemma rcs_links [simp]: "links (store (row_criminal_state row st)) = links (store st)"
  by (simp add: row_criminal_state_def split_def Let_def)

lemma rcs_count [simp]: "count (row_criminal_state row st) = count st"
  by (simp add: row_criminal_state_def split_def Let_def)

lemma rcs_messages [simp]: "messages (row_criminal_state row st) = messages st"
  by (simp add: row_criminal_state_def split_def Let_def)

lemma create_criminal_props:
  "criminals (snd (create_criminal fn ln d)) = criminals d @ [fst (create_criminal fn ln d)]
   \<and> first_name (fst (create_criminal fn ln d)) = fn
   \<and> last_name (fst (create_criminal fn ln d)) = ln
   \<and> criminal_pk (fst (create_criminal fn ln d)) \<notin> set (map criminal_pk (criminals d))"
  using next_pk_fresh[of "map criminal_pk (criminals d)"]
  by (simp add: create_criminal_def Let_def)

lemma objects_get_or_create_keeps:
  "objects_get_or_create m t c desc d = Inr ((x, created), d2) \<Longrightarrow>
   criminals d2 = criminals d \<and> links d2 = links d"
  by (cases m)
     (auto simp: get_or_create_def Let_def split: sum.splits list.splits prod.splits)

lemma import_row_success:
  assumes "length row = 6" and "import_row n row st = (None, st')"
  shows "\<exists>c l. current_criminal st' = Some c \<and> current_name st' = Some (row_name row)
           \<and> links (store st') = links (store st) @ [l] \<and> criminal_id l = criminal_pk c
           \<and> (current_name st = Some (row_name row) \<longrightarrow>
                criminals (store st') = criminals (store st) \<and> current_criminal st = Some c)
           \<and> (current_name st \<noteq> Some (row_name row) \<longrightarrow>
                criminals (store st') = criminals (store st) @ [c]
                \<and> first_name c = strip (row ! 0) \<and> last_name c = strip (row ! 1)
                \<and> criminal_pk c \<notin> set (map criminal_pk (criminals (store st))))"
proof -
  let ?st1 = "row_criminal_state row st"
  from assms obtain x created d2 c where
    g: "objects_get_or_create (row_model row) (strip (row ! 2)) (strip (row ! 3))
             (strip (row ! 4)) (store ?st1) = Inr ((x, created), d2)"
    and cc: "current_criminal ?st1 = Some c"
    and st': "st' = ?st1\<lparr>store := create_link c x d2, count := Suc (count ?st1)\<rparr>"
    by (auto simp: import_row_unfold split: sum.splits prod.splits option.splits)
  from objects_get_or_create_keeps[OF g]
  have k: "criminals d2 = criminals (store ?st1)" "links d2 = links (store ?st1)" by simp_all
  have l: "links (store st') = links (store st) @ [new_link c x d2]"
    using st' k(2) by (simp add: links_create_link)
  have cr: "criminals (store st') = criminals (store ?st1)"
    using st' k(1) by simp
  have same: "current_name st = Some (row_name row) \<longrightarrow>
                criminals (store st') = criminals (store st) \<and> current_criminal st = Some c"
    using cr cc by (auto simp: rcs_same)
  have new: "current_name st \<noteq> Some (row_name row) \<longrightarrow>
                criminals (store st') = criminals (store st) @ [c]
                \<and> first_name c = strip (row ! 0) \<and> last_name c = strip (row ! 1)
                \<and> criminal_pk c \<notin> set (map criminal_pk (criminals (store st)))"
  proof
    assume a: "current_name st \<noteq> Some (row_name row)"
    have "c = fst (create_criminal (strip (row ! 0)) (strip (row ! 1)) (store st))"
      using cc rcs_new[OF a] by simp
    moreover have "criminals (store ?st1) =
        criminals (snd (create_criminal (strip (row ! 0)) (strip (row ! 1)) (store st)))"
      using rcs_new[OF a] by simp
    ultimately show "criminals (store st') = criminals (store st) @ [c]
                \<and> first_name c = strip (row ! 0) \<and> last_name c = strip (row ! 1)
                \<and> criminal_pk c \<notin> set (map criminal_pk (criminals (store st)))"
      using cr create_criminal_props[of "strip (row ! 0)" "strip (row ! 1)" "store st"]
      by simp
  qed
  have "current_criminal st' = Some c \<and> current_name st' = Some (row_name row)"
    using st' cc by simp
  then show ?thesis using l same new
    by (intro exI[of _ c] exI[of _ "new_link c x d2"]) simp
qed

lemma rcs_criminal:
  assumes "current_name st = Some (row_name row) \<longrightarrow> current_criminal st \<noteq> None"
  shows "\<exists>c. current_criminal (row_criminal_state row st) = Some c"
proof (cases "current_name st = Some (row_name row)")
  case True
  then show ?thesis using assms by (auto simp: rcs_same)
next
  case False
  then show ?thesis by (simp add: rcs_new)
qed

lemma import_row_first:
  assumes "length row = 6"
      and "length (filter (same_triple (strip (row ! 2)) (strip (row ! 3)) (strip (row ! 4)))
                     (offense_table (row_model row) (store st))) \<le> 1"
      and "current_criminal (row_criminal_state row st) = Some c"
  shows "\<exists>x d2. import_row n row st =
           (None, (row_criminal_state row st)\<lparr>store := create_link c (as_model (row_model row) x) d2,
                     count := Suc (count st)\<rparr>)
         \<and> filter (same_triple (strip (row ! 2)) (strip (row ! 3)) (strip (row ! 4)))
             (offense_table (row_model row) d2) = [x]
         \<and> (distinct (map pk (offense_table (row_model row) (store st)))
              \<longrightarrow> distinct (map pk (offense_table (row_model row) d2)))
         \<and> links d2 = links (store st)"
proof -
  let ?st1 = "row_criminal_state row st"
  let ?m = "row_model row"
  have "length (filter (same_triple (strip (row ! 2)) (strip (row ! 3)) (strip (row ! 4)))
                     (offense_table ?m (store ?st1))) \<le> 1"
    using assms(2) by simp
  from objects_get_or_create_first[OF this] obtain x created d2 where
    g: "objects_get_or_create ?m (strip (row ! 2)) (strip (row ! 3)) (strip (row ! 4)) (store ?st1)
          = Inr ((as_model ?m x, created), d2)"
       "filter (same_triple (strip (row ! 2)) (strip (row ! 3)) (strip (row ! 4)))
          (offense_table ?m d2) = [x]"
       "distinct (map pk (offense_table ?m (store ?st1))) \<longrightarrow> distinct (map pk (offense_table ?m d2))"
       "links d2 = links (store ?st1)"
    by blast
  have "import_row n row st =
           (None, ?st1\<lparr>store := create_link c (as_model ?m x) d2, count := Suc (count st)\<rparr>)"
    using g(1) assms(3) by (simp add: import_row_unfold[OF assms(1)])
  then show ?thesis using g(2,3,4) by (intro exI[of _ x] exI[of _ d2]) simp
qed

lemma import_row_existing:
  assumes "length row = 6"
      and "filter (same_triple (strip (row ! 2)) (strip (row ! 3)) (strip (row ! 4)))
             (offense_table (row_model row) (store st)) = [x]"
      and "current_criminal (row_criminal_state row st) = Some c"
  shows "import_row n row st =
           (None, (row_criminal_state row st)\<lparr>store :=
                     create_link c (as_model (row_model row) x) (store (row_criminal_state row st)),
                     count := Suc (count st)\<rparr>)"
proof -
  have "filter (same_triple (strip (row ! 2)) (strip (row ! 3)) (strip (row ! 4)))
             (offense_table (row_model row) (store (row_criminal_state row st))) = [x]"
    using assms(2) by simp
  from objects_get_or_create_again[OF this] assms(3)
  show ?thesis by (simp add: import_row_unfold[OF assms(1)])
qed

lemma import_rows_twice:
  assumes "length r1 = 6" and "length r2 = 6"
      and "row_model r1 = m" and "row_model r2 = m"
      and "strip (r1 ! 2) = t" and "strip (r1 ! 3) = c" and "strip (r1 ! 4) = desc"
      and "strip (r2 ! 2) = t" and "strip (r2 ! 3) = c" and "strip (r2 ! 4) = desc"
      and "current_name st = Some (row_name r1) \<longrightarrow> current_criminal st \<noteq> None"
      and "length (filter (same_triple t c desc) (offense_table m (store st))) \<le> 1"
      and "distinct (map pk (offense_table m (store st)))"
  shows "\<exists>x l1 l2 st2. import_rows n [r1, r2] st = (None, st2)
           \<and> filter (same_triple t c desc) (offense_table m (store st2)) = [x]
           \<and> links (store st2) = links (store st) @ [l1, l2]
           \<and> link_offense (store st2) l1 = Some (as_model m x)
           \<and> link_offense (store st2) l2 = Some (as_model m x)"
proof -
  from rcs_criminal[OF assms(11)] obtain c1 where
    c1: "current_criminal (row_criminal_state r1 st) = Some c1" by blast
  have le: "length (filter (same_triple (strip (r1 ! 2)) (strip (r1 ! 3)) (strip (r1 ! 4)))
                     (offense_table (row_model r1) (store st))) \<le> 1"
    using assms by simp
  from import_row_first[OF assms(1) le c1, of n] obtain x da where
    a: "import_row n r1 st =
           (None, (row_criminal_state r1 st)\<lparr>store := create_link c1 (as_model m x) da,
                     count := Suc (count st)\<rparr>)"
       "filter (same_triple t c desc) (offense_table m da) = [x]"
       "distinct (map pk (offense_table m da))"
       "links da = links (store st)"
    using assms by auto
  let ?st1 = "(row_criminal_state r1 st)\<lparr>store := create_link c1 (as_model m x) da,
                     count := Suc (count st)\<rparr>"
  have "current_name ?st1 = Some (row_name r2) \<longrightarrow> current_criminal ?st1 \<noteq> None"
    using c1 by simp
  from rcs_criminal[OF this] obtain c2 where
    c2: "current_criminal (row_criminal_state r2 ?st1) = Some c2" by blast
  have f1: "filter (same_triple (strip (r2 ! 2)) (strip (r2 ! 3)) (strip (r2 ! 4)))
             (offense_table (row_model r2) (store ?st1)) = [x]"
    using a(2) assms by simp
  let ?db = "store (row_criminal_state r2 ?st1)"
  let ?st2 = "(row_criminal_state r2 ?st1)\<lparr>store := create_link c2 (as_model m x) ?db,
                     count := Suc (count ?st1)\<rparr>"
  have b: "import_row (Suc n) r2 ?st1 = (None, ?st2)"
    using import_row_existing[OF assms(2) f1 c2, of "Suc n"] assms(4) by simp
  have run: "import_rows n [r1, r2] st = (None, ?st2)"
    using a(1) b by simp
  have t2: "offense_table m (store ?st2) = offense_table m da" by simp
  have f2: "filter (same_triple t c desc) (offense_table m (store ?st2)) = [x]"
    using a(2) t2 by simp
  have dist: "distinct (map pk (offense_table m (store ?st2)))"
    using a(3) t2 by simp
  have mem: "x \<in> set (offense_table m (store ?st2))"
    by (rule filter_singleton_mem[OF f2])
  have l: "links (store ?st2) =
      links (store st) @ [new_link c1 (as_model m x) da, new_link c2 (as_model m x) ?db]"
    using a(4) by (simp add: links_create_link)
  have r1: "link_offense (store ?st2) (new_link c1 (as_model m x) da) = Some (as_model m x)"
    by (rule link_offense_new_link[OF mem dist])
  have r2: "link_offense (store ?st2) (new_link c2 (as_model m x) ?db) = Some (as_model m x)"
    by (rule link_offense_new_link[OF mem dist])
  show ?thesis
    using run f2 l r1 r2
    by (intro exI[of _ x] exI[of _ "new_link c1 (as_model m x) da"]
          exI[of _ "new_link c2 (as_model m x) ?db"] exI[of _ ?st2]) simp
qed

lemma import_row_skipped:
  "length row \<noteq> 6 \<Longrightarrow>
     \<exists>st'. import_row n row st = (None, st') \<and> store st' = store st
       \<and> current_name st' = current_name st \<and> current_criminal st' = current_criminal st
       \<and> count st' = count st"
  by (simp add: import_row_def)

lemmas str_eval = strip_def is_space_def lower_def lower_char_def
  uppercase_letters_def lowercase_letters_def

lemma strip_literals:
  "strip ''John'' = ''John''" "strip ''Doe'' = ''Doe''" "strip ''Jane'' = ''Jane''"
  "strip ''Roe'' = ''Roe''" "strip ''Felony'' = ''Felony''"
  "strip ''Misdemeanor'' = ''Misdemeanor''" "strip ''Infraction'' = ''Infraction''"
  "strip ''A'' = ''A''" "strip ''1'' = ''1''" "strip ''NA'' = ''NA''"
  "strip ''Bank robbery'' = ''Bank robbery''" "strip ''Trespassing'' = ''Trespassing''"
  "strip ''Speeding'' = ''Speeding''" "strip ''federal'' = ''federal''"
  "strip ''virginia'' = ''virginia''"
  "strip '' JOHN'' = ''JOHN''" "strip ''doe '' = ''doe''" "strip '' A'' = ''A''"
  "strip ''Bank robbery '' = ''Bank robbery''" "strip ''Federal'' = ''Federal''"
  by (simp_all add: strip_def is_space_def)

lemma lower_literals:
  "lower ''John'' = ''john''" "lower ''Doe'' = ''doe''" "lower ''Jane'' = ''jane''"
  "lower ''Roe'' = ''roe''" "lower ''JOHN'' = ''john''" "lower ''doe'' = ''doe''"
  "lower ''federal'' = ''federal''" "lower ''virginia'' = ''virginia''"
  "lower ''Federal'' = ''federal''"
  by (simp_all add: lower_def lower_char_def uppercase_letters_def lowercase_letters_def)

lemmas eval_defs = import_row_def import_init_def create_criminal_def create_link_def
  get_or_create_def same_triple_def next_pk_def strip_literals lower_literals Let_def

lemma csv_header_accepted: "map (\<lambda>h. lower (strip h)) csv_header = expected_header"
  by (simp add: csv_header_def expected_header_def str_eval)

lemma padded_header_accepted:
  "map (\<lambda>h. lower (strip h))
     [''First_Name'', '' last_name '', ''OFFENSE_TYPE'', ''offense_class'', ''description'',
      ''offense_source'' @ [CHR 0xA0]] = expected_header"
  by (simp add: expected_header_def str_eval)

lemma upload_request_eval:
  "mass_add_criminals (upload_request rows) d =
     (case import_rows 2 rows (import_init d) of
        (None, st) \<Rightarrow>
          (Redirect ''mass_add'',
           messages st @ [Message SUCCESS (''Successfully added '' @ str_nat (count st)
                                            @ '' offense records.'')],
           store st)
      | (Some e, st) \<Rightarrow> (Redirect ''mass_add'', messages st @ [ErrorProcessingFile e], d))"
proof -
  have "csv_header \<noteq> []" by (simp add: csv_header_def)
  then show ?thesis
    by (simp add: mass_add_criminals_def upload_request_def endswith_def csv_header_accepted)
qed

lemmas view_defs = upload_request_eval empty_db_def john_row1_def john_row2_def jane_row_def

lemma adjacent_rows_eval:
  "snd (snd (mass_add_criminals (upload_request [john_row1, john_row2]) empty_db)) =
     \<lparr>criminals = [\<lparr>criminal_pk = 1, first_name = ''John'', last_name = ''Doe'', date_of_birth = None\<rparr>],
      federal_offenses = [\<lparr>pk = 1, offense_type = ''Felony'', offense_class = ''A'', description = ''Bank robbery''\<rparr>],
      vacode_offenses = [\<lparr>pk = 1, offense_type = ''Misdemeanor'', offense_class = ''1'', description = ''Trespassing''\<rparr>],
      links = [\<lparr>link_pk = 1, criminal_id = 1, federal_offense_id = Some 1, vacode_offense_id = None, date_charged = None, convicted = False\<rparr>,
               \<lparr>link_pk = 2, criminal_id = 1, federal_offense_id = None, vacode_offense_id = Some 1, date_charged = None, convicted = False\<rparr>]\<rparr>"
  by (simp add: view_defs eval_defs)

lemma split_rows_eval:
  "snd (snd (mass_add_criminals (upload_request [john_row1, jane_row, john_row2]) empty_db)) =
     \<lparr>criminals = [\<lparr>criminal_pk = 1, first_name = ''John'', last_name = ''Doe'', date_of_birth = None\<rparr>,
                   \<lparr>criminal_pk = 2, first_name = ''Jane'', last_name = ''Roe'', date_of_birth = None\<rparr>,
                   \<lparr>criminal_pk = 3, first_name = ''John'', last_name = ''Doe'', date_of_birth = None\<rparr>],
      federal_offenses = [\<lparr>pk = 1, offense_type = ''Felony'', offense_class = ''A'', description = ''Bank robbery''\<rparr>],
      vacode_offenses = [\<lparr>pk = 1, offense_type = ''Infraction'', offense_class = ''NA'', description = ''Speeding''\<rparr>,
                         \<lparr>pk = 2, offense_type = ''Misdemeanor'', offense_class = ''1'', description = ''Trespassing''\<rparr>],
      links = [\<lparr>link_pk = 1, criminal_id = 1, federal_offense_id = Some 1, vacode_offense_id = None, date_charged = None, convicted = False\<rparr>,
               \<lparr>link_pk = 2, criminal_id = 2, federal_offense_id = None, vacode_offense_id = Some 1, date_charged = None, convicted = False\<rparr>,
               \<lparr>link_pk = 3, criminal_id = 3, federal_offense_id = None, vacode_offense_id = Some 2, date_charged = None, convicted = False\<rparr>]\<rparr>"
  by (simp add: view_defs eval_defs)

lemma duplicate_rows_eval:
  "import_rows 2 [john_row2, john_row1] (import_init duplicate_db) =
     (Some MultipleObjectsReturned,
      \<lparr>current_criminal = Some \<lparr>criminal_pk = 1, first_name = ''John'', last_name = ''Doe'', date_of_birth = None\<rparr>,
       current_name = Some (''john'', ''doe''), count = 1, messages = [],
       store = duplicate_db
         \<lparr>criminals := [\<lparr>criminal_pk = 1, first_name = ''John'', last_name = ''Doe'', date_of_birth = None\<rparr>],
          vacode_offenses := [\<lparr>pk = 1, offense_type = ''Misdemeanor'', offense_class = ''1'', description = ''Trespassing''\<rparr>],
          links := [\<lparr>link_pk = 1, criminal_id = 1, federal_offense_id = None, vacode_offense_id = Some 1, date_charged = None, convicted = False\<rparr>]\<rparr>\<rparr>)"
  by (simp add: duplicate_db_def john_row1_def john_row2_def eval_defs)

text \<open>
  Claim C4. Bulk import is atomic. For a POST with a \<open>.csv\<close> upload: when the header
  matches and an exception leaves the row loop, the view answers with the error message
  and the database is the one from before the import, whatever the loop had written up
  to the exception; when the file is empty or its header does not match, the
  invalid-header message is among the messages and the database is untouched.
\<close>

theorem mass_add_criminals_atomic:
  assumes "import_method request = ''POST''" and "csv_file request = Some f"
      and "endswith (upload_name f) ''.csv''"
  shows "(upload_rows f = header # rows \<and> map (\<lambda>h. lower (strip h)) header = expected_header
            \<and> import_rows 2 rows (import_init d) = (Some e, st) \<longrightarrow>
          mass_add_criminals request d =
            (Redirect ''mass_add'', messages st @ [ErrorProcessingFile e], d))
       \<and> ((case upload_rows f of [] \<Rightarrow> True
            | header # rows \<Rightarrow> map (\<lambda>h. lower (strip h)) header \<noteq> expected_header) \<longrightarrow>
          invalid_header_message \<in> set (fst (snd (mass_add_criminals request d)))
          \<and> snd (snd (mass_add_criminals request d)) = d)"
proof (intro conjI impI)
  assume "upload_rows f = header # rows \<and> map (\<lambda>h. lower (strip h)) header = expected_header
            \<and> import_rows 2 rows (import_init d) = (Some e, st)"
  moreover from this have "header \<noteq> []" by (auto simp: expected_header_def)
  ultimately show "mass_add_criminals request d =
            (Redirect ''mass_add'', messages st @ [ErrorProcessingFile e], d)"
    using assms by (simp add: mass_add_criminals_def)
next
  assume "case upload_rows f of [] \<Rightarrow> True
            | header # rows \<Rightarrow> map (\<lambda>h. lower (strip h)) header \<noteq> expected_header"
  then have "mass_add_criminals request d =
            (Redirect ''mass_add_criminals'', [invalid_header_message], d)"
    using assms by (auto simp: mass_add_criminals_def invalid_header_message_def split: list.splits)
  then show "invalid_header_message \<in> set (fst (snd (mass_add_criminals request d)))"
    and "snd (snd (mass_add_criminals request d)) = d"
    by simp_all
qed

theorem mass_add_criminals_atomic_witness:
  "mass_add_criminals (upload_request [john_row2, john_row1]) duplicate_db =
     (Redirect ''mass_add'', [ErrorProcessingFile MultipleObjectsReturned], duplicate_db)
   \<and> criminals (store (snd (import_rows 2 [john_row2, john_row1] (import_init duplicate_db)))) \<noteq> []
   \<and> snd (snd (mass_add_criminals
        \<lparr>import_method = ''POST'',
         csv_file = Some \<lparr>upload_name = ''criminals.csv'',
                          upload_rows = [[''name'', ''offense''], john_row1]\<rparr>\<rparr> empty_db)) = empty_db"
proof -
  have p: "import_method (upload_request [john_row2, john_row1]) = ''POST''"
    "csv_file (upload_request [john_row2, john_row1]) =
       Some \<lparr>upload_name = ''criminals.csv'', upload_rows = csv_header # [john_row2, john_row1]\<rparr>"
    "endswith (upload_name \<lparr>upload_name = ''criminals.csv'', upload_rows = csv_header # [john_row2, john_row1]\<rparr>) ''.csv''"
    by (simp_all add: upload_request_def endswith_def)
  have h: "map (\<lambda>h. lower (strip h)) csv_header = expected_header"
    by (simp add: csv_header_def expected_header_def strip_def is_space_def lower_def
          lower_char_def uppercase_letters_def lowercase_letters_def)
  have q: "import_method \<lparr>import_method = ''POST'',
         csv_file = Some \<lparr>upload_name = ''criminals.csv'',
                          upload_rows = [[''name'', ''offense''], john_row1]\<rparr>\<rparr> = ''POST''"
    "csv_file \<lparr>import_method = ''POST'',
         csv_file = Some \<lparr>upload_name = ''criminals.csv'',
                          upload_rows = [[''name'', ''offense''], john_row1]\<rparr>\<rparr> =
       Some \<lparr>upload_name = ''criminals.csv'', upload_rows = [[''name'', ''offense''], john_row1]\<rparr>"
    "endswith (upload_name \<lparr>upload_name = ''criminals.csv'',
         upload_rows = [[''name'', ''offense''], john_row1]\<rparr>) ''.csv''"
    by (simp_all add: endswith_def)
  have b: "case upload_rows \<lparr>upload_name = ''criminals.csv'',
               upload_rows = [[''name'', ''offense''], john_row1]\<rparr> of [] \<Rightarrow> True
            | header # rows \<Rightarrow> map (\<lambda>h. lower (strip h)) header \<noteq> expected_header"
    by (simp add: expected_header_def)
  let ?st = "snd (import_rows 2 [john_row2, john_row1] (import_init duplicate_db))"
  have r: "import_rows 2 [john_row2, john_row1] (import_init duplicate_db) =
             (Some MultipleObjectsReturned, ?st)"
    by (simp only: duplicate_rows_eval snd_conv)
  have m: "messages ?st = []" and c: "criminals (store ?st) \<noteq> []"
    by (simp_all only: duplicate_rows_eval snd_conv) simp_all
  from mass_add_criminals_atomic[OF p, of csv_header "[john_row2, john_row1]" duplicate_db
         MultipleObjectsReturned ?st] h r m
  have one: "mass_add_criminals (upload_request [john_row2, john_row1]) duplicate_db =
     (Redirect ''mass_add'', [ErrorProcessingFile MultipleObjectsReturned], duplicate_db)"
    by (simp del: import_rows.simps)
  from mass_add_criminals_atomic[OF q, of "[]" "[]" empty_db] b
  have two: "snd (snd (mass_add_criminals
        \<lparr>import_method = ''POST'',
         csv_file = Some \<lparr>upload_name = ''criminals.csv'',
                          upload_rows = [[''name'', ''offense''], john_row1]\<rparr>\<rparr> empty_db)) = empty_db"
    by blast
  from one c two show ?thesis by (simp del: import_rows.simps)
qed

lemma zip_right_unique:
  assumes "distinct ls" and "(a, d) \<in> set (zip us ls)" and "(b, d) \<in> set (zip us ls)"
  shows "a = b"
proof -
  from assms(2) obtain i where i: "i < length us" "i < length ls" "us ! i = a" "ls ! i = d"
    by (auto simp: in_set_zip)
  from assms(3) obtain j where j: "j < length us" "j < length ls" "us ! j = b" "ls ! j = d"
    by (auto simp: in_set_zip)
  from i(4) j(4) have "ls ! i = ls ! j" by simp
  with nth_eq_iff_index_eq[OF assms(1) i(2) j(2)] have "i = j" by simp
  with i(3) j(3) show ?thesis by simp
qed

lemma zip_left_unique:
  assumes "distinct us" and "(c, x) \<in> set (zip us ls)" and "(c, y) \<in> set (zip us ls)"
  shows "x = y"
proof -
  from assms(2) obtain i where i: "i < length us" "i < length ls" "us ! i = c" "ls ! i = x"
    by (auto simp: in_set_zip)
  from assms(3) obtain j where j: "j < length us" "j < length ls" "us ! j = c" "ls ! j = y"
    by (auto simp: in_set_zip)
  from i(3) j(3) have "us ! i = us ! j" by simp
  with nth_eq_iff_index_eq[OF assms(1) i(1) j(1)] have "i = j" by simp
  with i(4) j(4) show ?thesis by simp
qed

lemma table_map_eq_iff:
  assumes d: "distinct (us @ ls)" and l: "length us = length ls"
  shows "((case map_of (zip us ls) a of Some x \<Rightarrow> x | None \<Rightarrow> a)
          = (case map_of (zip us ls) b of Some x \<Rightarrow> x | None \<Rightarrow> b))
         = (a = b \<or> (a, b) \<in> set (zip us ls) \<or> (b, a) \<in> set (zip us ls))"
proof -
  from d have du: "distinct us" and dl: "distinct ls" and dj: "set us \<inter> set ls = {}" by auto
  have some: "\<And>c x. (map_of (zip us ls) c = Some x) = ((c, x) \<in> set (zip us ls))"
    using du l by (simp add: map_of_eq_Some_iff)
  have none: "\<And>c. (map_of (zip us ls) c = None) = (c \<notin> set us)"
    using l by (simp add: map_of_zip_is_None)
  have inl: "\<And>c x. (c, x) \<in> set (zip us ls) \<Longrightarrow> c \<in> set us"
    by (erule set_zip_leftD)
  have inr: "\<And>c x. (c, x) \<in> set (zip us ls) \<Longrightarrow> x \<notin> set us"
    using dj by (auto dest: set_zip_rightD)
  note lu = zip_left_unique[OF du] and ru = zip_right_unique[OF dl]
  show ?thesis
  proof (cases "map_of (zip us ls) a")
    case None
    then have fa: "(case map_of (zip us ls) a of Some x \<Rightarrow> x | None \<Rightarrow> a) = a" by simp
    from None none[of a] have au: "a \<notin> set us" by blast
    show ?thesis
    proof (cases "map_of (zip us ls) b")
      case None
      then have fb: "(case map_of (zip us ls) b of Some x \<Rightarrow> x | None \<Rightarrow> b) = b" by simp
      from None none[of b] have bu: "b \<notin> set us" by blast
      from au bu inl have "(a, b) \<notin> set (zip us ls)" "(b, a) \<notin> set (zip us ls)" by blast+
      then show ?thesis unfolding fa fb by blast
    next
      case (Some y)
      then have fb: "(case map_of (zip us ls) b of Some x \<Rightarrow> x | None \<Rightarrow> b) = y" by simp
      from Some some[of b y] have bz: "(b, y) \<in> set (zip us ls)" by blast
      from au inl have n1: "(a, b) \<notin> set (zip us ls)" by blast
      from au inl[OF bz] have n2: "a \<noteq> b" by blast
      have "(a = y) = ((b, a) \<in> set (zip us ls))"
        using bz lu[of b a _ y] by blast
      with n1 n2 show ?thesis unfolding fa fb by blast
    qed
  next
    case (Some x)
    then have fa: "(case map_of (zip us ls) a of Some x \<Rightarrow> x | None \<Rightarrow> a) = x" by simp
    from Some some[of a x] have ax: "(a, x) \<in> set (zip us ls)" by blast
    show ?thesis
    proof (cases "map_of (zip us ls) b")
      case None
      then have fb: "(case map_of (zip us ls) b of Some x \<Rightarrow> x | None \<Rightarrow> b) = b" by simp
      from None none[of b] have bu: "b \<notin> set us" by blast
      from bu inl have n1: "(b, a) \<notin> set (zip us ls)" by blast
      from bu inl[OF ax] have n2: "a \<noteq> b" by blast
      have "(x = b) = ((a, b) \<in> set (zip us ls))"
        using ax lu[of a b _ x] by blast
      with n1 n2 show ?thesis unfolding fa fb by blast
    next
      case (Some y)
      then have fb: "(case map_of (zip us ls) b of Some x \<Rightarrow> x | None \<Rightarrow> b) = y" by simp
      from Some some[of b y] have bz: "(b, y) \<in> set (zip us ls)" by blast
      from inl[OF ax] inr have n1: "(b, a) \<notin> set (zip us ls)" by blast
      from inl[OF bz] inr have n2: "(a, b) \<notin> set (zip us ls)" by blast
      have "(x = y) = (a = b)"
        using ax bz lu[of a x _ y] ru[of a x _ b] by blast
      with n1 n2 show ?thesis unfolding fa fb by blast
    qed
  qed
qed

lemma letters_distinct: "distinct (uppercase_letters @ lowercase_letters)"
  by (simp add: uppercase_letters_def lowercase_letters_def)

lemma letters_length: "length uppercase_letters = length lowercase_letters"
  by (simp add: uppercase_letters_def lowercase_letters_def)

lemma lower_char_eq_iff: "(lower_char a = lower_char b) = same_letter a b"
  unfolding lower_char_def same_letter_def
  by (rule table_map_eq_iff[OF letters_distinct letters_length])

lemma latin1_letters_lowered:
  "lower [CHR 0xC9, CHR 0xD7, CHR 0xDF, CHR ''Z''] = [CHR 0xE9, CHR 0xD7, CHR 0xDF, CHR ''z'']"
  "same_letter (CHR 0xC9) (CHR 0xE9)"
  by (simp_all add: lower_char_eq_iff[symmetric] lower_def lower_char_def
        uppercase_letters_def lowercase_letters_def)

lemma lower_eq_iff: "(lower s = lower t) = equal_ignoring_case s t"
proof (induction s arbitrary: t)
  case Nil
  then show ?case by (simp add: lower_def equal_ignoring_case_def)
next
  case (Cons a s)
  then show ?case
    by (cases t) (auto simp: lower_def equal_ignoring_case_def lower_char_eq_iff)
qed

lemma row_name_eq_iff: "(row_name r1 = row_name r2) = same_person r1 r2"
  by (simp add: row_name_def same_person_def lower_eq_iff)

lemma same_person_iff: "same_person r1 r2 = (row_name r2 = row_name r1)"
  using row_name_eq_iff[of r1 r2] by auto

lemma import_rows_skipped:
  "\<forall>r\<in>set rs. length r \<noteq> 6 \<Longrightarrow>
     \<exists>st'. import_rows m rs st = (None, st') \<and> store st' = store st
       \<and> current_name st' = current_name st \<and> current_criminal st' = current_criminal st
       \<and> count st' = count st"
proof (induction rs arbitrary: m st)
  case Nil
  then show ?case by simp
next
  case (Cons r rs)
  from Cons.prems have "length r \<noteq> 6" by simp
  from import_row_skipped[OF this, of m st] obtain s1 where
    a: "import_row m r st = (None, s1)" "store s1 = store st" "current_name s1 = current_name st"
       "current_criminal s1 = current_criminal st" "count s1 = count st"
    by blast
  from Cons.prems have "\<forall>r\<in>set rs. length r \<noteq> 6" by simp
  from Cons.IH[OF this, of "Suc m" s1] obtain s2 where
    b: "import_rows (Suc m) rs s1 = (None, s2)" "store s2 = store s1"
       "current_name s2 = current_name s1" "current_criminal s2 = current_criminal s1"
       "count s2 = count s1"
    by blast
  show ?case
    by (rule exI[of _ s2]) (simp add: a b)
qed

lemma import_rows_append:
  "import_rows m (xs @ ys) st =
     (case import_rows m xs st of
        (Some e, st') \<Rightarrow> (Some e, st')
      | (None, st') \<Rightarrow> import_rows (m + length xs) ys st')"
proof (induction xs arbitrary: m st)
  case Nil
  then show ?case by simp
next
  case (Cons x xs)
  show ?case
  proof (cases "import_row m x st")
    case (Pair r s1)
    then show ?thesis using Cons.IH[of "Suc m" s1]
      by (cases r) (auto split: prod.splits option.splits)
  qed
qed

lemma import_rows_single: "import_rows m [r] st = import_row m r st"
  by (cases "import_row m r st") (auto split: option.splits)

lemma name_runs_general:
  assumes "length r1 = 6" and "length r2 = 6"
      and "\<forall>r\<in>set skipped. length r \<noteq> 6"
      and "import_row n r1 st = (None, st1)"
      and "import_rows (Suc n) (skipped @ [r2]) st1 = (None, st2)"
  shows "\<exists>c1 c2 l1 l2. current_criminal st1 = Some c1 \<and> current_criminal st2 = Some c2
           \<and> links (store st2) = links (store st) @ [l1, l2]
           \<and> criminal_id l1 = criminal_pk c1 \<and> criminal_id l2 = criminal_pk c2
           \<and> (current_name st = None \<longrightarrow>
                criminals (store st1) = criminals (store st) @ [c1]
                \<and> first_name c1 = strip (r1 ! 0) \<and> last_name c1 = strip (r1 ! 1))
           \<and> (same_person r1 r2 \<longrightarrow>
                c2 = c1 \<and> criminals (store st2) = criminals (store st1))
           \<and> (\<not> same_person r1 r2 \<longrightarrow>
                criminals (store st2) = criminals (store st1) @ [c2]
                \<and> first_name c2 = strip (r2 ! 0) \<and> last_name c2 = strip (r2 ! 1)
                \<and> criminal_pk c2 \<notin> set (map criminal_pk (criminals (store st1))))"
proof -
  from import_rows_skipped[OF assms(3), of "Suc n" st1] obtain s where
    s: "import_rows (Suc n) skipped st1 = (None, s)" "store s = store st1"
       "current_name s = current_name st1" "current_criminal s = current_criminal st1"
    by blast
  from assms(5) s(1) have r2: "import_row (Suc n + length skipped) r2 s = (None, st2)"
    by (simp add: import_rows_append import_rows_single del: import_rows.simps)
  from import_row_success[OF assms(1) assms(4)] obtain c1 l1 where
    a: "current_criminal st1 = Some c1" "current_name st1 = Some (row_name r1)"
       "links (store st1) = links (store st) @ [l1]" "criminal_id l1 = criminal_pk c1"
       "current_name st \<noteq> Some (row_name r1) \<longrightarrow>
                criminals (store st1) = criminals (store st) @ [c1]
                \<and> first_name c1 = strip (r1 ! 0) \<and> last_name c1 = strip (r1 ! 1)
                \<and> criminal_pk c1 \<notin> set (map criminal_pk (criminals (store st)))"
    by blast
  from import_row_success[OF assms(2) r2] obtain c2 l2 where
    b: "current_criminal st2 = Some c2"
       "links (store st2) = links (store s) @ [l2]" "criminal_id l2 = criminal_pk c2"
       "current_name s = Some (row_name r2) \<longrightarrow>
                criminals (store st2) = criminals (store s) \<and> current_criminal s = Some c2"
       "current_name s \<noteq> Some (row_name r2) \<longrightarrow>
                criminals (store st2) = criminals (store s) @ [c2]
                \<and> first_name c2 = strip (r2 ! 0) \<and> last_name c2 = strip (r2 ! 1)
                \<and> criminal_pk c2 \<notin> set (map criminal_pk (criminals (store s)))"
    by blast
  have first: "current_name st = None \<longrightarrow>
                criminals (store st1) = criminals (store st) @ [c1]
                \<and> first_name c1 = strip (r1 ! 0) \<and> last_name c1 = strip (r1 ! 1)"
    using a(5) by auto
  have same: "same_person r1 r2 \<longrightarrow>
                c2 = c1 \<and> criminals (store st2) = criminals (store st1)"
    using a(1,2) b(4) s(2,3,4) by (auto simp: same_person_iff)
  have diff: "\<not> same_person r1 r2 \<longrightarrow>
                criminals (store st2) = criminals (store st1) @ [c2]
                \<and> first_name c2 = strip (r2 ! 0) \<and> last_name c2 = strip (r2 ! 1)
                \<and> criminal_pk c2 \<notin> set (map criminal_pk (criminals (store st1)))"
    using a(2) b(5) s(2,3) by (auto simp: same_person_iff)
  have l: "links (store st2) = links (store st) @ [l1, l2]"
    using a(3) b(2) s(2) by simp
  show ?thesis
    by (rule exI[of _ c1], rule exI[of _ c2], rule exI[of _ l1], rule exI[of _ l2])
       (use a(1,4) b(1,3) first same diff l in blast)
qed

lemma john_state1_eval:
  "import_row 2 john_row1 (import_init empty_db) =
     (None,
      \<lparr>current_criminal = Some \<lparr>criminal_pk = 1, first_name = ''John'', last_name = ''Doe'', date_of_birth = None\<rparr>,
       current_name = Some (''john'', ''doe''), count = 1, messages = [],
       store = \<lparr>criminals = [\<lparr>criminal_pk = 1, first_name = ''John'', last_name = ''Doe'', date_of_birth = None\<rparr>],
                federal_offenses = [\<lparr>pk = 1, offense_type = ''Felony'', offense_class = ''A'', description = ''Bank robbery''\<rparr>],
                vacode_offenses = [],
                links = [\<lparr>link_pk = 1, criminal_id = 1, federal_offense_id = Some 1, vacode_offense_id = None, date_charged = None, convicted = False\<rparr>]\<rparr>\<rparr>)"
  by (simp add: empty_db_def john_row1_def eval_defs)

lemma john_state2_eval:
  "fst (import_rows 3 [jane_short_row, john_row3] john_state1) = None"
  by (simp add: john_state1_def john_state1_eval)
     (simp add: jane_short_row_def john_row3_def eval_defs)

lemma skipped_row_eval:
  "criminals (snd (snd (mass_add_criminals
       (upload_request [john_row1, jane_short_row, john_row2]) empty_db))) =
     [\<lparr>criminal_pk = 1, first_name = ''John'', last_name = ''Doe'', date_of_birth = None\<rparr>]"
  by (simp add: view_defs jane_short_row_def eval_defs)

text \<open>
  Claim C5, as amended. Rows with a field count other than six are skipped and leave the
  current person as it is. Take a six-field row, any number of skipped rows, and a second
  six-field row, all processed without an exception. Each of the two rows adds one link
  to the person current after it, and at the start of an import the first row creates
  its person. When the two rows name the same person, first and last name being equal
  up to letter case and surrounding whitespace, the person stays current and none is
  created; otherwise exactly one new person with the second row's names and a fresh key
  is created and becomes current. So two adjacent rows for John Doe create one person
  with two links, and the same two rows around a six-field row for Jane Roe create
  three persons, two of them named John Doe.
\<close>

theorem mass_add_criminals_name_runs:
  assumes "length r1 = 6" and "length r2 = 6"
      and "\<forall>r\<in>set skipped. length r \<noteq> 6"
      and "import_row n r1 st = (None, st1)"
      and "import_rows (Suc n) (skipped @ [r2]) st1 = (None, st2)"
  shows "(\<exists>c1 c2 l1 l2. current_criminal st1 = Some c1 \<and> current_criminal st2 = Some c2
           \<and> links (store st2) = links (store st) @ [l1, l2]
           \<and> criminal_id l1 = criminal_pk c1 \<and> criminal_id l2 = criminal_pk c2
           \<and> (current_name st = None \<longrightarrow>
                criminals (store st1) = criminals (store st) @ [c1]
                \<and> first_name c1 = strip (r1 ! 0) \<and> last_name c1 = strip (r1 ! 1))
           \<and> (same_person r1 r2 \<longrightarrow>
                c2 = c1 \<and> criminals (store st2) = criminals (store st1))
           \<and> (\<not> same_person r1 r2 \<longrightarrow>
                criminals (store st2) = criminals (store st1) @ [c2]
                \<and> first_name c2 = strip (r2 ! 0) \<and> last_name c2 = strip (r2 ! 1)
                \<and> criminal_pk c2 \<notin> set (map criminal_pk (criminals (store st1)))))
       \<and> criminals (snd (snd (mass_add_criminals (upload_request [john_row1, john_row2]) empty_db)))
           = [\<lparr>criminal_pk = 1, first_name = ''John'', last_name = ''Doe'', date_of_birth = None\<rparr>]
       \<and> map criminal_id
            (links (snd (snd (mass_add_criminals (upload_request [john_row1, john_row2]) empty_db))))
           = [1, 1]
       \<and> criminals (snd (snd (mass_add_criminals
                                 (upload_request [john_row1, jane_row, john_row2]) empty_db)))
           = [\<lparr>criminal_pk = 1, first_name = ''John'', last_name = ''Doe'', date_of_birth = None\<rparr>,
              \<lparr>criminal_pk = 2, first_name = ''Jane'', last_name = ''Roe'', date_of_birth = None\<rparr>,
              \<lparr>criminal_pk = 3, first_name = ''John'', last_name = ''Doe'', date_of_birth = None\<rparr>]"
proof -
  note g = name_runs_general[OF assms]
  have a: "criminals (snd (snd (mass_add_criminals (upload_request [john_row1, john_row2]) empty_db)))
           = [\<lparr>criminal_pk = 1, first_name = ''John'', last_name = ''Doe'', date_of_birth = None\<rparr>]"
    by (simp only: adjacent_rows_eval) simp
  have b: "map criminal_id
            (links (snd (snd (mass_add_criminals (upload_request [john_row1, john_row2]) empty_db))))
           = [1, 1]"
    by (simp only: adjacent_rows_eval) simp
  have c: "criminals (snd (snd (mass_add_criminals
                                 (upload_request [john_row1, jane_row, john_row2]) empty_db)))
           = [\<lparr>criminal_pk = 1, first_name = ''John'', last_name = ''Doe'', date_of_birth = None\<rparr>,
              \<lparr>criminal_pk = 2, first_name = ''Jane'', last_name = ''Roe'', date_of_birth = None\<rparr>,
              \<lparr>criminal_pk = 3, first_name = ''John'', last_name = ''Doe'', date_of_birth = None\<rparr>]"
    by (simp only: split_rows_eval) simp
  from g a b c show ?thesis by (intro conjI)
qed

theorem mass_add_criminals_name_runs_witness:
  "same_person john_row1 john_row3
   \<and> (\<exists>c l1 l2. current_criminal john_state1 = Some c \<and> current_criminal john_state2 = Some c
         \<and> criminals (store john_state1) = [c]
         \<and> first_name c = ''John'' \<and> last_name c = ''Doe''
         \<and> criminals (store john_state2) = [c]
         \<and> links (store john_state2) = [l1, l2]
         \<and> criminal_id l1 = criminal_pk c \<and> criminal_id l2 = criminal_pk c)"
proof -
  have n: "same_person john_row1 john_row3"
    by (simp add: same_person_iff row_name_def john_row1_def john_row3_def
          strip_literals lower_literals)
  have a: "length john_row1 = 6" "length john_row3 = 6"
    by (simp_all add: john_row1_def john_row3_def)
  have k: "\<forall>r\<in>set [jane_short_row]. length r \<noteq> 6"
    by (simp add: jane_short_row_def)
  have b: "import_row 2 john_row1 (import_init empty_db) = (None, john_state1)"
    by (simp only: john_state1_def john_state1_eval snd_conv)
  have c: "import_rows (Suc 2) ([jane_short_row] @ [john_row3]) john_state1 = (None, john_state2)"
    using john_state2_eval
    by (simp add: john_state2_def prod_eq_iff eval_nat_numeral del: import_rows.simps)
  have e: "links (store (import_init empty_db)) = []" "criminals (store (import_init empty_db)) = []"
          "current_name (import_init empty_db) = None"
    by (simp_all add: import_init_def empty_db_def)
  have s: "strip (john_row1 ! 0) = ''John''" "strip (john_row1 ! 1) = ''Doe''"
    by (simp_all add: john_row1_def strip_literals)
  from mass_add_criminals_name_runs[OF a k b c] n e s show ?thesis
    by auto
qed

text \<open>
  Claim C5 as stated fails: two rows for John Doe separated by a row for Jane Roe that
  lacks its last field create one person, the separating row being skipped before the
  names are compared.
\<close>

theorem mass_add_criminals_skipped_row_same_person:
  "length jane_short_row = 5
   \<and> strip (jane_short_row ! 0) = ''Jane'' \<and> strip (john_row1 ! 0) = ''John''
   \<and> criminals (snd (snd (mass_add_criminals
        (upload_request [john_row1, jane_short_row, john_row2]) empty_db))) =
     [\<lparr>criminal_pk = 1, first_name = ''John'', last_name = ''Doe'', date_of_birth = None\<rparr>]"
  by (simp add: skipped_row_eval) (simp add: jane_short_row_def john_row1_def strip_literals)

lemma ChoiceField_no_choices: "ChoiceField [] raw = None"
  by (simp add: ChoiceField_def Let_def)

lemma CriminalOffenseForm_never_valid: "CriminalOffenseForm p = None"
  by (simp add: CriminalOffenseForm_def ChoiceField_no_choices split: option.splits)

lemma add_criminal_keeps_db:
  "add_criminal request d =
     (Inr (Render ''criminals/add_criminal.html''),
      (if add_method request = ''POST''
       then [Message ERROR ''There were errors in the form.''] else []),
      d)"
  by (simp add: add_criminal_def CriminalOffenseForm_never_valid split: option.splits)

text \<open>
  Claim C3, as amended. In the bulk import, offense creation is idempotent under an
  identical (offense_type, offense_class, description) triple within one jurisdiction's
  table that stores the triple at most once beforehand: two six-field rows carrying the
  triple, surrounding whitespace aside, for that jurisdiction are processed without an
  exception and leave exactly one stored offense row with the triple, and the two links
  created reference that very row.
\<close>

theorem offense_creation_idempotent:
  assumes "length (filter (same_triple t c desc) (offense_table m (store st))) \<le> 1"
      and "distinct (map pk (offense_table m (store st)))"
      and "length r1 = 6" and "length r2 = 6"
      and "row_model r1 = m" and "row_model r2 = m"
      and "strip (r1 ! 2) = t" and "strip (r1 ! 3) = c" and "strip (r1 ! 4) = desc"
      and "strip (r2 ! 2) = t" and "strip (r2 ! 3) = c" and "strip (r2 ! 4) = desc"
      and "current_name st = Some (row_name r1) \<longrightarrow> current_criminal st \<noteq> None"
  shows "\<exists>x l1 l2 st2. import_rows n [r1, r2] st = (None, st2)
           \<and> filter (same_triple t c desc) (offense_table m (store st2)) = [x]
           \<and> links (store st2) = links (store st) @ [l1, l2]
           \<and> link_offense (store st2) l1 = Some (as_model m x)
           \<and> link_offense (store st2) l2 = Some (as_model m x)"
  using import_rows_twice[of r1 r2 m t c desc st n] assms by simp

theorem offense_creation_idempotent_witness:
  "\<exists>x l1 l2 st2. import_rows 2 [john_row1, john_row3] (import_init empty_db) = (None, st2)
    \<and> filter (same_triple ''Felony'' ''A'' ''Bank robbery'') (federal_offenses (store st2)) = [x]
    \<and> links (store st2) = [l1, l2]
    \<and> link_offense (store st2) l1 = Some (FederalOffense x)
    \<and> link_offense (store st2) l2 = Some (FederalOffense x)"
proof -
  have a: "length (filter (same_triple ''Felony'' ''A'' ''Bank robbery'')
             (offense_table FederalOffenseModel (store (import_init empty_db)))) \<le> 1"
    by (simp add: offense_table_def empty_db_def import_init_def)
  have b: "distinct (map pk (offense_table FederalOffenseModel (store (import_init empty_db))))"
    by (simp add: offense_table_def empty_db_def import_init_def)
  have l: "length john_row1 = 6" "length john_row3 = 6"
    by (simp_all add: john_row1_def john_row3_def)
  have m: "row_model john_row1 = FederalOffenseModel" "row_model john_row3 = FederalOffenseModel"
    by (simp_all add: row_model_def model_of_source_def john_row1_def john_row3_def
          strip_literals lower_literals)
  have f1: "strip (john_row1 ! 2) = ''Felony''" "strip (john_row1 ! 3) = ''A''"
      "strip (john_row1 ! 4) = ''Bank robbery''"
    by (simp_all add: john_row1_def strip_literals)
  have f3: "strip (john_row3 ! 2) = ''Felony''" "strip (john_row3 ! 3) = ''A''"
      "strip (john_row3 ! 4) = ''Bank robbery''"
    by (simp_all add: john_row3_def strip_literals)
  have i: "current_name (import_init empty_db) = Some (row_name john_row1)
           \<longrightarrow> current_criminal (import_init empty_db) \<noteq> None"
    by (simp add: import_init_def)
  have e: "links (store (import_init empty_db)) = []"
    by (simp add: import_init_def empty_db_def)
  from offense_creation_idempotent[OF a b l m f1 f3 i, of 2] show ?thesis
    by (simp add: e offense_table_def as_model_def)
qed

text \<open>
  Claim C3 as stated fails: the offense tables declare no uniqueness, and on a federal
  table that stores the triple twice the import of two rows with that triple raises
  \<open>MultipleObjectsReturned\<close>; the two stored rows remain and no link is created.
\<close>

theorem offense_creation_duplicates_raise:
  "filter (same_triple ''Felony'' ''A'' ''Bank robbery'') (federal_offenses duplicate_db) =
     [\<lparr>pk = 1, offense_type = ''Felony'', offense_class = ''A'', description = ''Bank robbery''\<rparr>,
      \<lparr>pk = 2, offense_type = ''Felony'', offense_class = ''A'', description = ''Bank robbery''\<rparr>]
   \<and> links duplicate_db = []
   \<and> mass_add_criminals (upload_request [john_row1, john_row3]) duplicate_db =
       (Redirect ''mass_add'', [ErrorProcessingFile MultipleObjectsReturned], duplicate_db)"
  by (simp add: view_defs john_row3_def duplicate_db_def eval_defs)

end
